theory Spec2Isabelle
  imports Complex_Main
begin

section \<open>Data model\<close>

text \<open>
  The store keeps its data in a relational database reached through an ORM. The tables
  the order pipeline touches are embedded as records; a row's primary key is a string.
  Amounts of money (DECIMAL columns that the handlers turn into numbers before computing)
  are exact rationals here, quantities and counters are integers, and an instant
  is the number of milliseconds since the epoch.
\<close>

type_synonym ident = string
type_synonym timestamp = int

datatype OrderStatus = PENDING | CONFIRMED | PROCESSING | SHIPPED | DELIVERED | CANCELLED | REFUNDED

datatype PaymentStatus = PAY_PENDING | PAID | FAILED | PAY_REFUNDED | PARTIALLY_REFUNDED

datatype DiscountType = PERCENTAGE | FIXED_AMOUNT | FREE_SHIPPING

record Product =
  p_name :: string
  p_sku :: "string option"
  p_price :: rat
  p_quantity :: int
  p_allowBackorder :: bool

record ProductVariant =
  v_name :: string
  v_sku :: "string option"
  v_price :: rat
  v_quantity :: int

record CartItem =
  ci_id :: ident
  ci_userId :: "ident option"
  ci_sessionId :: "ident option"
  ci_productId :: ident
  ci_variantId :: "ident option"
  ci_quantity :: int

record OrderItem =
  oi_productId :: ident
  oi_variantId :: "ident option"
  oi_name :: string
  oi_sku :: "string option"
  oi_price :: rat
  oi_quantity :: int
  oi_total :: rat

record DiscountCode =
  dc_id :: ident
  dc_code :: string
  dc_type :: DiscountType
  dc_value :: rat
  dc_minOrderAmount :: "rat option"
  dc_maxUses :: "int option"
  dc_usedCount :: int
  dc_expiresAt :: "timestamp option"
  dc_isActive :: bool

record ShippingAddress =
  sa_firstName :: string
  sa_lastName :: string
  sa_phone :: string
  sa_street :: string
  sa_city :: string
  sa_state :: "string option"
  sa_postalCode :: "string option"
  sa_country :: string

record Address =
  a_id :: ident
  a_userId :: ident
  a_fields :: ShippingAddress

record Order =
  o_id :: ident
  o_orderNumber :: string
  o_userId :: "ident option"
  o_email :: string
  o_phone :: "string option"
  o_status :: OrderStatus
  o_paymentStatus :: PaymentStatus
  o_paymentMethod :: "string option"
  o_stripePaymentId :: "string option"
  o_subtotal :: rat
  o_shippingCost :: rat
  o_discountAmount :: rat
  o_total :: rat
  o_currency :: string
  o_notes :: "string option"
  o_shippingAddressId :: "ident option"
  o_cancelledAt :: "timestamp option"
  o_discountCodeId :: "ident option"
  o_items :: "OrderItem list"
  o_timeline :: "(string \<times> string) list"

text \<open>
  The database. Products and variants are looked up and updated by primary key only, so
  they are maps; the other tables are searched by other columns and are lists of rows.
  An order's line items and timeline entries are created with the order and looked up
  by its id, so they are kept inside the order row.
\<close>

record db =
  products :: "ident \<rightharpoonup> Product"
  variants :: "ident \<rightharpoonup> ProductVariant"
  cartItems :: "CartItem list"
  discountCodes :: "DiscountCode list"
  orders :: "Order list"
  addresses :: "Address list"

datatype prisma_error = RecordNotFound | UniqueConstraintFailed

text \<open>
  A string-or-null used as a condition: null and the empty string are false.
  \<open>js_truthy\<close> returns the string when it counts as true.
\<close>

definition js_truthy :: "string option \<Rightarrow> string option" where
  "js_truthy s = (case s of None \<Rightarrow> None | Some v \<Rightarrow> if v = [] then None else Some v)"

section \<open>Database operations\<close>

text \<open>An update addressed to a primary key that has no row throws.\<close>

definition product_update :: "ident \<Rightarrow> (Product \<Rightarrow> Product) \<Rightarrow> db \<Rightarrow> prisma_error + db" where
  "product_update pid f d =
     (case products d pid of
        None \<Rightarrow> Inl RecordNotFound
      | Some p \<Rightarrow> Inr (d\<lparr>products := (products d)(pid \<mapsto> f p)\<rparr>))"

definition variant_update :: "ident \<Rightarrow> (ProductVariant \<Rightarrow> ProductVariant) \<Rightarrow> db \<Rightarrow> prisma_error + db" where
  "variant_update vid f d =
     (case variants d vid of
        None \<Rightarrow> Inl RecordNotFound
      | Some v \<Rightarrow> Inr (d\<lparr>variants := (variants d)(vid \<mapsto> f v)\<rparr>))"

definition order_findUnique :: "db \<Rightarrow> ident \<Rightarrow> Order option" where
  "order_findUnique d oid = find (\<lambda>r. o_id r = oid) (orders d)"

definition order_update :: "ident \<Rightarrow> (Order \<Rightarrow> Order) \<Rightarrow> db \<Rightarrow> prisma_error + (db \<times> Order)" where
  "order_update oid f d =
     (case order_findUnique d oid of
        None \<Rightarrow> Inl RecordNotFound
      | Some r \<Rightarrow> Inr (d\<lparr>orders := map (\<lambda>x. if o_id x = oid then f x else x) (orders d)\<rparr>, f r))"

definition discountCode_update :: "ident \<Rightarrow> (DiscountCode \<Rightarrow> DiscountCode) \<Rightarrow> db \<Rightarrow> prisma_error + db" where
  "discountCode_update cid f d =
     (case find (\<lambda>c. dc_id c = cid) (discountCodes d) of
        None \<Rightarrow> Inl RecordNotFound
      | Some c \<Rightarrow> Inr (d\<lparr>discountCodes := map (\<lambda>x. if dc_id x = cid then f x else x) (discountCodes d)\<rparr>))"

definition cartItem_deleteMany_user :: "ident \<Rightarrow> db \<Rightarrow> db" where
  "cartItem_deleteMany_user uid d = d\<lparr>cartItems := filter (\<lambda>c. ci_userId c \<noteq> Some uid) (cartItems d)\<rparr>"

section \<open>Inventory updates\<close>

text \<open>
  The loop shared by payment confirmation and cancellation: for every line item, the
  variant's stock when the item has a variant id, else the product's stock, is changed by
  the ordered quantity. Confirmation decrements (\<open>k = -1\<close>), cancellation increments
  (\<open>k = 1\<close>). The updates are not in a transaction: when one throws, the earlier
  ones stay, so the loop returns the database it reached together with the error.
\<close>

fun adjust_inventory :: "int \<Rightarrow> db \<Rightarrow> OrderItem list \<Rightarrow> db \<times> prisma_error option" where
  "adjust_inventory k d [] = (d, None)"
| "adjust_inventory k d (item # rest) =
     (case (case js_truthy (oi_variantId item) of
              Some vid \<Rightarrow> variant_update vid (\<lambda>v. v\<lparr>v_quantity := v_quantity v + k * oi_quantity item\<rparr>) d
            | None \<Rightarrow> product_update (oi_productId item) (\<lambda>p. p\<lparr>p_quantity := p_quantity p + k * oi_quantity item\<rparr>) d) of
        Inl e \<Rightarrow> (d, Some e)
      | Inr d' \<Rightarrow> adjust_inventory k d' rest)"

definition decrement_inventory :: "db \<Rightarrow> OrderItem list \<Rightarrow> db \<times> prisma_error option" where
  "decrement_inventory = adjust_inventory (- 1)"

definition restore_inventory :: "db \<Rightarrow> OrderItem list \<Rightarrow> db \<times> prisma_error option" where
  "restore_inventory = adjust_inventory 1"

section \<open>Payment webhook\<close>

record StripeObject =
  so_id :: string
  so_url :: "string option"
  so_metadata :: "(string \<times> string) list option"
  so_payment_intent :: "string option"

record StripeEvent =
  ev_type :: string
  ev_object :: StripeObject

text \<open>
  \<open>handleCheckoutComplete\<close>: every database error inside the handler is caught and
  logged, so the handler returns the database as it stands where the error was thrown.
  Sending the confirmation email catches its own errors and writes nothing to the database.
\<close>

definition confirm_paid :: "Order \<Rightarrow> Order" where
  "confirm_paid r =
     r\<lparr>o_status := CONFIRMED, o_paymentStatus := PAID, o_paymentMethod := Some ''stripe'',
       o_timeline := o_timeline r @ [(''CONFIRMED'', ''Payment received via Stripe'')]\<rparr>"

definition handleCheckoutComplete :: "db \<Rightarrow> StripeObject \<Rightarrow> db" where
  "handleCheckoutComplete d session =
     (case js_truthy (case so_metadata session of None \<Rightarrow> None | Some m \<Rightarrow> map_of m ''orderId'') of
        None \<Rightarrow> d
      | Some orderId \<Rightarrow>
          (case order_update orderId confirm_paid d of
             Inl e \<Rightarrow> d
           | Inr (d1, order) \<Rightarrow>
               (case decrement_inventory d1 (o_items order) of
                  (d2, Some e) \<Rightarrow> d2
                | (d2, None) \<Rightarrow>
                    (case (case js_truthy (o_discountCodeId order) of
                             None \<Rightarrow> Inr d2
                           | Some cid \<Rightarrow> discountCode_update cid (\<lambda>c. c\<lparr>dc_usedCount := dc_usedCount c + 1\<rparr>) d2) of
                       Inl e \<Rightarrow> d2
                     | Inr d3 \<Rightarrow>
                         (case js_truthy (o_userId order) of
                            None \<Rightarrow> d3
                          | Some uid \<Rightarrow> cartItem_deleteMany_user uid d3)))))"

definition handlePaymentFailed :: "db \<Rightarrow> StripeObject \<Rightarrow> db" where
  "handlePaymentFailed d paymentIntent = d"

datatype webhook_response = WebhookError string | Received

fun webhook_status :: "webhook_response \<Rightarrow> nat" where
  "webhook_status (WebhookError msg) = 400"
| "webhook_status Received = 200"

text \<open>
  The route. Signature verification belongs to the payment provider's library: it is the
  parameter \<open>constructEvent\<close>, which given the raw body, the signature header and the
  webhook secret returns the parsed event or throws with a message.
\<close>

definition stripe_webhook ::
  "(string \<Rightarrow> string \<Rightarrow> string \<Rightarrow> string + StripeEvent) \<Rightarrow> string \<Rightarrow> db \<Rightarrow> string \<Rightarrow> string \<Rightarrow> db \<times> webhook_response" where
  "stripe_webhook constructEvent webhookSecret d body sig =
     (case constructEvent body sig webhookSecret of
        Inl message \<Rightarrow> (d, WebhookError (''Webhook Error: '' @ message))
      | Inr event \<Rightarrow>
          (if ev_type event = ''checkout.session.completed''
             then (handleCheckoutComplete d (ev_object event), Received)
           else if ev_type event = ''payment_intent.succeeded''
             then (d, Received)
           else if ev_type event = ''payment_intent.payment_failed''
             then (handlePaymentFailed d (ev_object event), Received)
           else (d, Received)))"

section \<open>Cancellation\<close>

text \<open>
  The payment gateway is outside the program: its calls are functions that return a
  result or throw with a message.
\<close>

record CouponParams =
  cp_id :: string
  cp_name :: string
  cp_percent_off :: "rat option"
  cp_amount_off :: "int option"
  cp_currency :: "string option"

record StripeLineItem =
  li_name :: string
  li_description :: "string option"
  li_unit_amount :: int
  li_quantity :: int

record SessionParams =
  sp_line_items :: "StripeLineItem list"
  sp_coupon :: "string option"
  sp_shipping_amount :: int
  sp_shipping_display_name :: string
  sp_customer_email :: string
  sp_metadata_orderId :: ident
  sp_metadata_orderNumber :: string

record Gateway =
  gw_sessions_retrieve :: "string \<Rightarrow> string + StripeObject"
  gw_refunds_create :: "string \<Rightarrow> string + unit"
  gw_coupons_retrieve :: "string \<Rightarrow> string + string"
  gw_coupons_create :: "CouponParams \<Rightarrow> string + string"
  gw_sessions_create :: "SessionParams \<Rightarrow> string + StripeObject"

text \<open>
  The refund step of the cancel route: the error thrown by the gateway, if any, and the
  payment intents for which a refund was requested, in order.
\<close>

definition refund_if_paid :: "Gateway \<Rightarrow> Order \<Rightarrow> string option \<times> string list" where
  "refund_if_paid gw order =
     (if o_paymentStatus order = PAID
      then (case js_truthy (o_stripePaymentId order) of
              None \<Rightarrow> (None, [])
            | Some sid \<Rightarrow>
                (case gw_sessions_retrieve gw sid of
                   Inl e \<Rightarrow> (Some e, [])
                 | Inr session \<Rightarrow>
                     (case js_truthy (so_payment_intent session) of
                        None \<Rightarrow> (None, [])
                      | Some intent \<Rightarrow>
                          (case gw_refunds_create gw intent of
                             Inl e \<Rightarrow> (Some e, [intent])
                           | Inr u \<Rightarrow> (None, [intent])))))
      else (None, []))"

datatype cancel_response =
    OrderNotFound
  | AccessDenied
  | CannotCancel
  | CancelThrew
  | OrderCancelled Order

fun cancel_status :: "cancel_response \<Rightarrow> nat" where
  "cancel_status OrderNotFound = 404"
| "cancel_status AccessDenied = 403"
| "cancel_status CannotCancel = 400"
| "cancel_status CancelThrew = 500"
| "cancel_status (OrderCancelled r) = 200"

text \<open>
  The data of the update that cancels: \<open>order\<close> is the row read at the start of the
  request, whose payment status decides the new one.
\<close>

definition mark_cancelled :: "Order \<Rightarrow> timestamp \<Rightarrow> string option \<Rightarrow> Order \<Rightarrow> Order" where
  "mark_cancelled order now reason r =
     r\<lparr>o_status := CANCELLED,
       o_paymentStatus := (if o_paymentStatus order = PAID then PAY_REFUNDED else o_paymentStatus order),
       o_cancelledAt := Some now,
       o_timeline := o_timeline r @
         [(''CANCELLED'', (case js_truthy reason of
                             Some note \<Rightarrow> note
                           | None \<Rightarrow> ''Cancelled by customer''))]\<rparr>"

text \<open>
  \<open>POST /:id/cancel\<close> for the authenticated user \<open>userId\<close>. The result is the
  database after the request, the response, and the refund calls made.
\<close>

definition cancel_order ::
  "Gateway \<Rightarrow> timestamp \<Rightarrow> db \<Rightarrow> ident \<Rightarrow> ident \<Rightarrow> string option \<Rightarrow> db \<times> cancel_response \<times> string list" where
  "cancel_order gw now d userId oid reason =
     (case order_findUnique d oid of
        None \<Rightarrow> (d, OrderNotFound, [])
      | Some order \<Rightarrow>
          if o_userId order \<noteq> Some userId then (d, AccessDenied, [])
          else if o_status order \<noteq> PENDING \<and> o_status order \<noteq> CONFIRMED then (d, CannotCancel, [])
          else
            (case refund_if_paid gw order of
               (Some e, calls) \<Rightarrow> (d, CancelThrew, calls)
             | (None, calls) \<Rightarrow>
                 (case order_update oid (mark_cancelled order now reason) d of
                    Inl e \<Rightarrow> (d, CancelThrew, calls)
                  | Inr (d1, updated) \<Rightarrow>
                      (case restore_inventory d1 (o_items updated) of
                         (d2, Some e) \<Rightarrow> (d2, CancelThrew, calls)
                       | (d2, None) \<Rightarrow> (d2, OrderCancelled updated, calls)))))"

section \<open>Order numbers\<close>

text \<open>
  \<open>toUpperCase\<close> on the ASCII letters (identifiers, discount codes and base-36 digits
  are ASCII).
\<close>

definition toUpperCase_char :: "char \<Rightarrow> char" where
  "toUpperCase_char c =
     (let n = (of_char c :: nat) in if 97 \<le> n \<and> n \<le> 122 then char_of (n - 32) else c)"

definition toUpperCase :: "string \<Rightarrow> string" where
  "toUpperCase s = map toUpperCase_char s"

definition substring :: "string \<Rightarrow> nat \<Rightarrow> nat \<Rightarrow> string" where
  "substring s i j = take (j - i) (drop i s)"

text \<open>
  \<open>generateOrderNumber\<close> reads the clock and the random number generator. Its two
  inputs here are what the runtime hands it: \<open>isoString\<close>, the current instant rendered by
  \<open>toISOString\<close> (as in \<open>2024-01-15T10:30:00.000Z\<close>), and \<open>rnd36\<close>, the random
  number of the unit interval rendered in base 36 (as in \<open>0.a3b7k2\<close>).
\<close>

definition generateOrderNumber :: "string \<Rightarrow> string \<Rightarrow> string" where
  "generateOrderNumber isoString rnd36 =
     (let dateStr = filter (\<lambda>c. c \<noteq> CHR ''-'') (take 10 isoString);
          random = toUpperCase (substring rnd36 2 6)
      in ''ZPS-'' @ dateStr @ ''-'' @ random)"

section \<open>Checkout\<close>

record CheckoutBody =
  cb_email :: string
  cb_phone :: "string option"
  cb_shippingAddress :: ShippingAddress
  cb_discountCode :: "string option"
  cb_notes :: "string option"

text \<open>What the handler takes from its surroundings: the clock, the random number
  generator and the keys the database gives to new rows.\<close>

record CheckoutEnv =
  env_now :: timestamp
  env_isoString :: string
  env_random36 :: string
  env_newOrderId :: ident
  env_newAddressId :: ident

record CheckoutResult =
  ck_checkoutUrl :: "string option"
  ck_sessionId :: string
  ck_orderId :: ident
  ck_orderNumber :: string

datatype checkout_error =
    EmptyCartError
  | InsufficientStockError ident int
  | InvalidDiscountError
  | DiscountInactiveError
  | DiscountExpiredError
  | DiscountExhaustedError
  | DiscountMinimumNotMetError
  | CheckoutThrew

text \<open>
  The responses behind the errors: status 400 with the messages \<open>Cart is empty\<close>,
  \<open>Not enough stock for ...\<close> (with \<open>productId\<close> and \<open>available\<close>),
  \<open>Invalid discount code\<close>, \<open>Discount code is no longer active\<close>,
  \<open>Discount code has expired\<close>, \<open>Discount code usage limit reached\<close> and
  \<open>Minimum order amount of ... ILS required\<close>; \<open>CheckoutThrew\<close> is an exception
  handed to the error middleware.
\<close>

fun checkout_status :: "checkout_error \<Rightarrow> nat" where
  "checkout_status CheckoutThrew = 500"
| "checkout_status e = 400"

record CartRow =
  cr_item :: CartItem
  cr_product :: Product
  cr_variant :: "ProductVariant option"

definition include_product_variant :: "db \<Rightarrow> CartItem \<Rightarrow> CartRow option" where
  "include_product_variant d c =
     (case products d (ci_productId c) of
        None \<Rightarrow> None
      | Some p \<Rightarrow>
          Some \<lparr>cr_item = c, cr_product = p,
                cr_variant = (case ci_variantId c of None \<Rightarrow> None | Some vid \<Rightarrow> variants d vid)\<rparr>)"

text \<open>
  The cart of the request's identity: the user's rows when the request is authenticated,
  else the rows of the cart session. A filter whose value is undefined is no filter.
  Every row comes with its product and, if it has one, its variant; the query throws
  (the result is \<open>None\<close>) when a row's product is missing.
\<close>

definition cartItem_where_identity :: "db \<Rightarrow> ident option \<Rightarrow> string option \<Rightarrow> CartItem list" where
  "cartItem_where_identity d userId sessionId =
     (case js_truthy userId of
        Some uid \<Rightarrow> filter (\<lambda>c. ci_userId c = Some uid) (cartItems d)
      | None \<Rightarrow>
          (case sessionId of
             None \<Rightarrow> cartItems d
           | Some sid \<Rightarrow> filter (\<lambda>c. ci_sessionId c = Some sid) (cartItems d)))"

definition cartItem_findMany :: "db \<Rightarrow> ident option \<Rightarrow> string option \<Rightarrow> CartRow list option" where
  "cartItem_findMany d userId sessionId =
     those (map (include_product_variant d) (cartItem_where_identity d userId sessionId))"

definition js_round :: "rat \<Rightarrow> int" where
  "js_round x = \<lfloor>x + 1 / 2\<rfloor>"

definition item_price :: "CartRow \<Rightarrow> rat" where
  "item_price item = (case cr_variant item of Some v \<Rightarrow> v_price v | None \<Rightarrow> p_price (cr_product item))"

definition item_availableQty :: "CartRow \<Rightarrow> int" where
  "item_availableQty item =
     (case cr_variant item of Some v \<Rightarrow> v_quantity v | None \<Rightarrow> p_quantity (cr_product item))"

definition make_lineItem :: "CartRow \<Rightarrow> StripeLineItem" where
  "make_lineItem item =
     \<lparr>li_name = p_name (cr_product item),
      li_description = (case cr_variant item of Some v \<Rightarrow> Some (v_name v) | None \<Rightarrow> None),
      li_unit_amount = js_round (item_price item * 100),
      li_quantity = ci_quantity (cr_item item)\<rparr>"

definition make_orderItem :: "CartRow \<Rightarrow> OrderItem" where
  "make_orderItem item =
     \<lparr>oi_productId = ci_productId (cr_item item),
      oi_variantId = ci_variantId (cr_item item),
      oi_name = p_name (cr_product item) @
                (case cr_variant item of Some v \<Rightarrow> '' - '' @ v_name v | None \<Rightarrow> []),
      oi_sku = (case js_truthy (case cr_variant item of Some v \<Rightarrow> v_sku v | None \<Rightarrow> None) of
                  Some sku \<Rightarrow> Some sku
                | None \<Rightarrow> p_sku (cr_product item)),
      oi_price = item_price item,
      oi_quantity = ci_quantity (cr_item item),
      oi_total = item_price item * of_int (ci_quantity (cr_item item))\<rparr>"

text \<open>
  The loop "verify stock and calculate totals", with its three accumulators. The first
  item that asks for more than is available of a product without backorder ends the
  request.
\<close>

fun verify_stock ::
  "CartRow list \<Rightarrow> rat \<Rightarrow> StripeLineItem list \<Rightarrow> OrderItem list
     \<Rightarrow> checkout_error + (rat \<times> StripeLineItem list \<times> OrderItem list)" where
  "verify_stock [] subtotal lineItems orderItems = Inr (subtotal, lineItems, orderItems)"
| "verify_stock (item # rest) subtotal lineItems orderItems =
     (if \<not> p_allowBackorder (cr_product item) \<and> ci_quantity (cr_item item) > item_availableQty item
      then Inl (InsufficientStockError (ci_productId (cr_item item)) (item_availableQty item))
      else verify_stock rest
             (subtotal + item_price item * of_int (ci_quantity (cr_item item)))
             (lineItems @ [make_lineItem item])
             (orderItems @ [make_orderItem item]))"

definition discountCode_findUnique :: "db \<Rightarrow> string \<Rightarrow> DiscountCode option" where
  "discountCode_findUnique d code = find (\<lambda>c. dc_code c = code) (discountCodes d)"

text \<open>
  "Apply discount if provided": the discount amount and the code's row, or the error
  response. A code that is null or empty is no code. The four checks and the amount are
  written as functions of their own below. The condition on \<open>maxUses\<close> (an integer) is
  false for null and for 0; the conditions on \<open>expiresAt\<close> and \<open>minOrderAmount\<close>
  (objects) are false for null only. The amount has a branch for the percentage type and
  one for the fixed amount; for any other type it stays 0.
\<close>

definition discount_expired :: "timestamp \<Rightarrow> DiscountCode \<Rightarrow> bool" where
  "discount_expired now c = (case dc_expiresAt c of None \<Rightarrow> False | Some t \<Rightarrow> t < now)"

definition discount_exhausted :: "DiscountCode \<Rightarrow> bool" where
  "discount_exhausted c = (case dc_maxUses c of None \<Rightarrow> False | Some m \<Rightarrow> m \<noteq> 0 \<and> dc_usedCount c \<ge> m)"

definition discount_below_minimum :: "rat \<Rightarrow> DiscountCode \<Rightarrow> bool" where
  "discount_below_minimum subtotal c =
     (case dc_minOrderAmount c of None \<Rightarrow> False | Some a \<Rightarrow> subtotal < a)"

definition discount_amount :: "rat \<Rightarrow> DiscountCode \<Rightarrow> rat" where
  "discount_amount subtotal c =
     (if dc_type c = PERCENTAGE then subtotal * (dc_value c / 100)
      else if dc_type c = FIXED_AMOUNT then dc_value c
      else 0)"

definition apply_discount ::
  "db \<Rightarrow> timestamp \<Rightarrow> string option \<Rightarrow> rat \<Rightarrow> checkout_error + (rat \<times> DiscountCode option)" where
  "apply_discount d now discountCode subtotal =
     (case js_truthy discountCode of
        None \<Rightarrow> Inr (0, None)
      | Some code \<Rightarrow>
          (case discountCode_findUnique d (toUpperCase code) of
             None \<Rightarrow> Inl InvalidDiscountError
           | Some discountCodeRecord \<Rightarrow>
               if \<not> dc_isActive discountCodeRecord then Inl DiscountInactiveError
               else if discount_expired now discountCodeRecord then Inl DiscountExpiredError
               else if discount_exhausted discountCodeRecord then Inl DiscountExhaustedError
               else if discount_below_minimum subtotal discountCodeRecord
                 then Inl DiscountMinimumNotMetError
               else Inr (discount_amount subtotal discountCodeRecord, Some discountCodeRecord)))"

definition shipping_cost :: "rat \<Rightarrow> rat" where
  "shipping_cost subtotal = (if subtotal > 200 then 0 else 25)"

text \<open>Creating an order fails on a primary key or an order number already in the table
  (the unique index on the order number).\<close>

definition order_create :: "Order \<Rightarrow> db \<Rightarrow> prisma_error + db" where
  "order_create r d =
     (if list_ex (\<lambda>x. o_id x = o_id r \<or> o_orderNumber x = o_orderNumber r) (orders d)
      then Inl UniqueConstraintFailed
      else Inr (d\<lparr>orders := orders d @ [r]\<rparr>))"

definition getOrCreateStripeCoupon :: "Gateway \<Rightarrow> DiscountCode \<Rightarrow> string + string" where
  "getOrCreateStripeCoupon gw discountCode =
     (case gw_coupons_retrieve gw (dc_code discountCode) of
        Inr coupon \<Rightarrow> Inr coupon
      | Inl e \<Rightarrow>
          gw_coupons_create gw
            (if dc_type discountCode = PERCENTAGE
             then \<lparr>cp_id = dc_code discountCode, cp_name = dc_code discountCode,
                   cp_percent_off = Some (dc_value discountCode), cp_amount_off = None,
                   cp_currency = None\<rparr>
             else \<lparr>cp_id = dc_code discountCode, cp_name = dc_code discountCode,
                   cp_percent_off = None,
                   cp_amount_off = Some (js_round (dc_value discountCode * 100)),
                   cp_currency = Some ''ils''\<rparr>))"

definition create_checkout_session ::
  "Gateway \<Rightarrow> Order \<Rightarrow> StripeLineItem list \<Rightarrow> DiscountCode option \<Rightarrow> string + StripeObject" where
  "create_checkout_session gw order lineItems discountCodeRecord =
     (case (case discountCodeRecord of
              None \<Rightarrow> Inr None
            | Some c \<Rightarrow> (case getOrCreateStripeCoupon gw c of Inl e \<Rightarrow> Inl e | Inr coupon \<Rightarrow> Inr (Some coupon))) of
        Inl e \<Rightarrow> Inl e
      | Inr coupon \<Rightarrow>
          gw_sessions_create gw
            \<lparr>sp_line_items = lineItems,
             sp_coupon = coupon,
             sp_shipping_amount = js_round (o_shippingCost order * 100),
             sp_shipping_display_name =
               (if o_shippingCost order = 0 then ''Free Shipping'' else ''Standard Shipping''),
             sp_customer_email = o_email order,
             sp_metadata_orderId = o_id order,
             sp_metadata_orderNumber = o_orderNumber order\<rparr>)"

text \<open>The order row handed to the database ("create order in pending state").\<close>

definition new_order ::
  "CheckoutEnv \<Rightarrow> ident option \<Rightarrow> CheckoutBody \<Rightarrow> ident option \<Rightarrow> rat \<Rightarrow> rat
     \<Rightarrow> DiscountCode option \<Rightarrow> OrderItem list \<Rightarrow> Order" where
  "new_order env userId body addressId subtotal discountAmount discountCodeRecord orderItems =
     \<lparr>o_id = env_newOrderId env,
      o_orderNumber = generateOrderNumber (env_isoString env) (env_random36 env),
      o_userId = userId,
      o_email = cb_email body,
      o_phone = cb_phone body,
      o_status = PENDING,
      o_paymentStatus = PAY_PENDING,
      o_paymentMethod = None,
      o_stripePaymentId = None,
      o_subtotal = subtotal,
      o_shippingCost = shipping_cost subtotal,
      o_discountAmount = discountAmount,
      o_total = subtotal - discountAmount + shipping_cost subtotal,
      o_currency = ''ILS'',
      o_notes = cb_notes body,
      o_shippingAddressId = addressId,
      o_cancelledAt = None,
      o_discountCodeId = (case discountCodeRecord of None \<Rightarrow> None | Some c \<Rightarrow> Some (dc_id c)),
      o_items = orderItems,
      o_timeline = [(''PENDING'', ''Order created, awaiting payment'')]\<rparr>"

text \<open>
  The second half of the handler, after the validations: the address of an authenticated
  user, the order, the payment session, and the session's id written back to the order.
  Nothing is rolled back when a later step throws.
\<close>

definition place_order ::
  "Gateway \<Rightarrow> CheckoutEnv \<Rightarrow> db \<Rightarrow> ident option \<Rightarrow> CheckoutBody \<Rightarrow> rat \<Rightarrow> StripeLineItem list
     \<Rightarrow> OrderItem list \<Rightarrow> rat \<Rightarrow> DiscountCode option \<Rightarrow> db \<times> (checkout_error + CheckoutResult)" where
  "place_order gw env d userId body subtotal lineItems orderItems discountAmount discountCodeRecord =
     (let d1 = (case js_truthy userId of
                  None \<Rightarrow> d
                | Some uid \<Rightarrow>
                    d\<lparr>addresses := addresses d @
                        [\<lparr>a_id = env_newAddressId env, a_userId = uid,
                          a_fields = cb_shippingAddress body\<rparr>]\<rparr>);
          addressId = (case js_truthy userId of None \<Rightarrow> None | Some uid \<Rightarrow> Some (env_newAddressId env));
          order = new_order env userId body addressId subtotal discountAmount discountCodeRecord orderItems
      in case order_create order d1 of
           Inl e \<Rightarrow> (d1, Inl CheckoutThrew)
         | Inr d2 \<Rightarrow>
             (case create_checkout_session gw order lineItems discountCodeRecord of
                Inl e \<Rightarrow> (d2, Inl CheckoutThrew)
              | Inr checkoutSession \<Rightarrow>
                  (case order_update (o_id order)
                          (\<lambda>r. r\<lparr>o_stripePaymentId := Some (so_id checkoutSession)\<rparr>) d2 of
                     Inl e \<Rightarrow> (d2, Inl CheckoutThrew)
                   | Inr (d3, updated) \<Rightarrow>
                       (d3, Inr \<lparr>ck_checkoutUrl = so_url checkoutSession,
                                 ck_sessionId = so_id checkoutSession,
                                 ck_orderId = o_id order,
                                 ck_orderNumber = o_orderNumber order\<rparr>))))"

text \<open>\<open>POST /checkout\<close>.\<close>

definition checkout ::
  "Gateway \<Rightarrow> CheckoutEnv \<Rightarrow> db \<Rightarrow> ident option \<Rightarrow> string option \<Rightarrow> CheckoutBody
     \<Rightarrow> db \<times> (checkout_error + CheckoutResult)" where
  "checkout gw env d userId sessionId body =
     (case cartItem_findMany d userId sessionId of
        None \<Rightarrow> (d, Inl CheckoutThrew)
      | Some cartRows \<Rightarrow>
          if cartRows = [] then (d, Inl EmptyCartError)
          else
            (case verify_stock cartRows 0 [] [] of
               Inl e \<Rightarrow> (d, Inl e)
             | Inr (subtotal, lineItems, orderItems) \<Rightarrow>
                 (case apply_discount d (env_now env) (cb_discountCode body) subtotal of
                    Inl e \<Rightarrow> (d, Inl e)
                  | Inr (discountAmount, discountCodeRecord) \<Rightarrow>
                      place_order gw env d userId body subtotal lineItems orderItems
                        discountAmount discountCodeRecord)))"

section \<open>Merging a guest cart\<close>

definition cartItem_update :: "ident \<Rightarrow> (CartItem \<Rightarrow> CartItem) \<Rightarrow> db \<Rightarrow> prisma_error + db" where
  "cartItem_update cid f d =
     (case find (\<lambda>c. ci_id c = cid) (cartItems d) of
        None \<Rightarrow> Inl RecordNotFound
      | Some c \<Rightarrow> Inr (d\<lparr>cartItems := map (\<lambda>x. if ci_id x = cid then f x else x) (cartItems d)\<rparr>))"

definition cartItem_delete :: "ident \<Rightarrow> db \<Rightarrow> prisma_error + db" where
  "cartItem_delete cid d =
     (case find (\<lambda>c. ci_id c = cid) (cartItems d) of
        None \<Rightarrow> Inl RecordNotFound
      | Some c \<Rightarrow> Inr (d\<lparr>cartItems := filter (\<lambda>x. ci_id x \<noteq> cid) (cartItems d)\<rparr>))"

text \<open>
  "Merge each item": the loop runs over the guest rows read before it starts, and looks
  the user's rows up in the database as the loop has left it.
\<close>

fun merge_guest_items :: "ident \<Rightarrow> db \<Rightarrow> CartItem list \<Rightarrow> db \<times> prisma_error option" where
  "merge_guest_items userId d [] = (d, None)"
| "merge_guest_items userId d (guestItem # rest) =
     (case find (\<lambda>c. ci_userId c = Some userId \<and> ci_productId c = ci_productId guestItem
                        \<and> ci_variantId c = ci_variantId guestItem) (cartItems d) of
        Some existingUserItem \<Rightarrow>
          (case cartItem_update (ci_id existingUserItem)
                  (\<lambda>c. c\<lparr>ci_quantity := ci_quantity existingUserItem + ci_quantity guestItem\<rparr>) d of
             Inl e \<Rightarrow> (d, Some e)
           | Inr d1 \<Rightarrow>
               (case cartItem_delete (ci_id guestItem) d1 of
                  Inl e \<Rightarrow> (d1, Some e)
                | Inr d2 \<Rightarrow> merge_guest_items userId d2 rest))
      | None \<Rightarrow>
          (case cartItem_update (ci_id guestItem)
                  (\<lambda>c. c\<lparr>ci_userId := Some userId, ci_sessionId := None\<rparr>) d of
             Inl e \<Rightarrow> (d, Some e)
           | Inr d1 \<Rightarrow> merge_guest_items userId d1 rest))"

datatype merge_response = AuthenticationRequired | NoGuestCart | CartMerged | MergeThrew

text \<open>\<open>POST /merge\<close>: \<open>userId\<close> is the authenticated user, if any, and
  \<open>sessionId\<close> the guest session named in the request body.\<close>

definition cart_merge :: "db \<Rightarrow> ident option \<Rightarrow> string option \<Rightarrow> db \<times> merge_response" where
  "cart_merge d userId sessionId =
     (case js_truthy userId of
        None \<Rightarrow> (d, AuthenticationRequired)
      | Some uid \<Rightarrow>
          (case js_truthy sessionId of
             None \<Rightarrow> (d, NoGuestCart)
           | Some sid \<Rightarrow>
               (case merge_guest_items uid d (filter (\<lambda>c. ci_sessionId c = Some sid) (cartItems d)) of
                  (d', Some e) \<Rightarrow> (d', MergeThrew)
                | (d', None) \<Rightarrow> (d', CartMerged))))"

section \<open>Quantities the properties speak of\<close>

definition product_stock :: "db \<Rightarrow> ident \<Rightarrow> int option" where
  "product_stock d pid = map_option p_quantity (products d pid)"

definition variant_stock :: "db \<Rightarrow> ident \<Rightarrow> int option" where
  "variant_stock d vid = map_option v_quantity (variants d vid)"

definition usage_counter :: "db \<Rightarrow> ident \<Rightarrow> int option" where
  "usage_counter d cid = map_option dc_usedCount (find (\<lambda>c. dc_id c = cid) (discountCodes d))"

text \<open>The quantity a list of line items orders of a product without variant, and of a
  variant.\<close>

definition ordered_product :: "OrderItem list \<Rightarrow> ident \<Rightarrow> int" where
  "ordered_product items pid =
     sum_list (map oi_quantity
       (filter (\<lambda>i. js_truthy (oi_variantId i) = None \<and> oi_productId i = pid) items))"

definition ordered_variant :: "OrderItem list \<Rightarrow> ident \<Rightarrow> int" where
  "ordered_variant items vid =
     sum_list (map oi_quantity (filter (\<lambda>i. js_truthy (oi_variantId i) = Some vid) items))"

text \<open>Every line item points to a row that exists: its variant if it has a variant id,
  else its product.\<close>

definition stock_row_exists :: "db \<Rightarrow> OrderItem \<Rightarrow> bool" where
  "stock_row_exists d i =
     (case js_truthy (oi_variantId i) of
        Some vid \<Rightarrow> variants d vid \<noteq> None
      | None \<Rightarrow> products d (oi_productId i) \<noteq> None)"

definition discount_row_exists :: "db \<Rightarrow> Order \<Rightarrow> bool" where
  "discount_row_exists d r =
     (case js_truthy (o_discountCodeId r) of
        None \<Rightarrow> True
      | Some cid \<Rightarrow> find (\<lambda>c. dc_id c = cid) (discountCodes d) \<noteq> None)"

text \<open>The quantity a user's cart, and a guest session's cart, holds of a product and
  variant.\<close>

definition user_cart_quantity :: "db \<Rightarrow> ident \<Rightarrow> ident \<Rightarrow> ident option \<Rightarrow> int" where
  "user_cart_quantity d uid pid vid =
     sum_list (map ci_quantity
       (filter (\<lambda>c. ci_userId c = Some uid \<and> ci_productId c = pid \<and> ci_variantId c = vid) (cartItems d)))"

definition guest_cart_quantity :: "db \<Rightarrow> ident \<Rightarrow> ident \<Rightarrow> ident option \<Rightarrow> int" where
  "guest_cart_quantity d sid pid vid =
     sum_list (map ci_quantity
       (filter (\<lambda>c. ci_sessionId c = Some sid \<and> ci_productId c = pid \<and> ci_variantId c = vid) (cartItems d)))"

definition insufficient_stock :: "CartRow \<Rightarrow> bool" where
  "insufficient_stock item =
     (\<not> p_allowBackorder (cr_product item) \<and> ci_quantity (cr_item item) > item_availableQty item)"

section \<open>Example states\<close>

text \<open>A small shop, with the three discount codes of the seed script.\<close>

definition ex_ring :: Product where
  "ex_ring = \<lparr>p_name = ''Ring'', p_sku = Some ''RNG-1'', p_price = 50, p_quantity = 10,
               p_allowBackorder = False\<rparr>"

definition ex_scarf :: Product where
  "ex_scarf = \<lparr>p_name = ''Scarf'', p_sku = None, p_price = 120, p_quantity = 0,
                p_allowBackorder = False\<rparr>"

definition ex_scarf_large :: ProductVariant where
  "ex_scarf_large = \<lparr>v_name = ''Large'', v_sku = Some ''SCF-L'', v_price = 130, v_quantity = 4\<rparr>"

definition ex_welcome10 :: DiscountCode where
  "ex_welcome10 = \<lparr>dc_id = ''d1'', dc_code = ''WELCOME10'', dc_type = PERCENTAGE, dc_value = 10,
                    dc_minOrderAmount = None, dc_maxUses = None, dc_usedCount = 0,
                    dc_expiresAt = None, dc_isActive = True\<rparr>"

definition ex_save20 :: DiscountCode where
  "ex_save20 = \<lparr>dc_id = ''d2'', dc_code = ''SAVE20'', dc_type = FIXED_AMOUNT, dc_value = 20,
                 dc_minOrderAmount = Some 100, dc_maxUses = None, dc_usedCount = 0,
                 dc_expiresAt = None, dc_isActive = True\<rparr>"

definition ex_freeship :: DiscountCode where
  "ex_freeship = \<lparr>dc_id = ''d3'', dc_code = ''FREESHIP'', dc_type = FREE_SHIPPING, dc_value = 0,
                   dc_minOrderAmount = Some 50, dc_maxUses = None, dc_usedCount = 0,
                   dc_expiresAt = None, dc_isActive = True\<rparr>"

definition ex_cart_ring :: CartItem where
  "ex_cart_ring = \<lparr>ci_id = ''c1'', ci_userId = Some ''u1'', ci_sessionId = None,
                    ci_productId = ''pRing'', ci_variantId = None, ci_quantity = 2\<rparr>"

definition ex_db :: db where
  "ex_db = \<lparr>products = [''pRing'' \<mapsto> ex_ring, ''pScarf'' \<mapsto> ex_scarf],
             variants = [''vLarge'' \<mapsto> ex_scarf_large],
             cartItems = [ex_cart_ring],
             discountCodes = [ex_welcome10, ex_save20, ex_freeship],
             orders = [],
             addresses = []\<rparr>"

text \<open>An order of user \<open>u1\<close> awaiting payment: two rings and one large scarf, with the
  code WELCOME10.\<close>

definition ex_order :: Order where
  "ex_order =
     \<lparr>o_id = ''o1'', o_orderNumber = ''ZPS-20240115-A3B7'', o_userId = Some ''u1'',
      o_email = ''u1@example.com'', o_phone = None, o_status = PENDING,
      o_paymentStatus = PAY_PENDING, o_paymentMethod = None, o_stripePaymentId = Some ''cs_1'',
      o_subtotal = 230, o_shippingCost = 0, o_discountAmount = 23, o_total = 207,
      o_currency = ''ILS'', o_notes = None, o_shippingAddressId = None, o_cancelledAt = None,
      o_discountCodeId = Some ''d1'',
      o_items =
        [\<lparr>oi_productId = ''pRing'', oi_variantId = None, oi_name = ''Ring'',
          oi_sku = Some ''RNG-1'', oi_price = 50, oi_quantity = 2, oi_total = 100\<rparr>,
         \<lparr>oi_productId = ''pScarf'', oi_variantId = Some ''vLarge'', oi_name = ''Scarf - Large'',
          oi_sku = Some ''SCF-L'', oi_price = 130, oi_quantity = 1, oi_total = 130\<rparr>],
      o_timeline = [(''PENDING'', ''Order created, awaiting payment'')]\<rparr>"

definition ex_db_order :: db where
  "ex_db_order = ex_db\<lparr>orders := [ex_order]\<rparr>"

definition ex_session :: StripeObject where
  "ex_session = \<lparr>so_id = ''cs_1'', so_url = Some ''https://pay.example/cs_1'',
                  so_metadata = Some [(''orderId'', ''o1''), (''orderNumber'', ''ZPS-20240115-A3B7'')],
                  so_payment_intent = Some ''pi_1''\<rparr>"

definition ex_event :: StripeEvent where
  "ex_event = \<lparr>ev_type = ''checkout.session.completed'', ev_object = ex_session\<rparr>"

text \<open>A verification that accepts the signature \<open>good\<close> only.\<close>

definition ex_constructEvent :: "string \<Rightarrow> string \<Rightarrow> string \<Rightarrow> string + StripeEvent" where
  "ex_constructEvent body sig secret =
     (if sig = ''good'' then Inr ex_event else Inl ''signature mismatch'')"

text \<open>A gateway that knows the session \<open>cs_1\<close>, refunds whatever it is asked to, has
  no coupon yet and creates what it is asked to.\<close>

definition ex_gateway :: Gateway where
  "ex_gateway =
     \<lparr>gw_sessions_retrieve = (\<lambda>sid. if sid = ''cs_1'' then Inr ex_session else Inl ''No such checkout.session''),
      gw_refunds_create = (\<lambda>intent. Inr ()),
      gw_coupons_retrieve = (\<lambda>code. Inl ''No such coupon''),
      gw_coupons_create = (\<lambda>params. Inr (cp_id params)),
      gw_sessions_create = (\<lambda>params. Inr ex_session)\<rparr>"

text \<open>The shop after the order \<open>o1\<close> has been paid, and a paid order that has no
  payment session reference.\<close>

definition ex_db_paid :: db where
  "ex_db_paid = handleCheckoutComplete ex_db_order ex_session"

definition ex_order_noref :: Order where
  "ex_order_noref = ex_order\<lparr>o_status := CONFIRMED, o_paymentStatus := PAID, o_stripePaymentId := None\<rparr>"

definition ex_db_noref :: db where
  "ex_db_noref = ex_db\<lparr>orders := [ex_order_noref]\<rparr>"

text \<open>A checkout request of user \<open>u1\<close>, whose cart holds two rings at 50.\<close>

definition ex_env :: CheckoutEnv where
  "ex_env = \<lparr>env_now = 1705314600000, env_isoString = ''2024-01-15T10:30:00.000Z'',
              env_random36 = ''0.a3b7k2m9'', env_newOrderId = ''o2'', env_newAddressId = ''a1''\<rparr>"

definition ex_address :: ShippingAddress where
  "ex_address = \<lparr>sa_firstName = ''Lina'', sa_lastName = ''Haddad'', sa_phone = ''0599000000'',
                  sa_street = ''1 Main St'', sa_city = ''Ramallah'', sa_state = None,
                  sa_postalCode = None, sa_country = ''PS''\<rparr>"

definition ex_body :: "string option \<Rightarrow> CheckoutBody" where
  "ex_body discountCode = \<lparr>cb_email = ''u1@example.com'', cb_phone = None,
                            cb_shippingAddress = ex_address, cb_discountCode = discountCode,
                            cb_notes = None\<rparr>"



text \<open>The same shop with a cart that asks for eleven rings, of which there are ten.\<close>

definition ex_db_greedy :: db where
  "ex_db_greedy = ex_db\<lparr>cartItems := [ex_cart_ring\<lparr>ci_quantity := 11\<rparr>]\<rparr>"







text \<open>The shop with a guest session \<open>s1\<close> whose cart holds three rings and a large
  scarf, beside the two rings of user \<open>u1\<close>.\<close>

definition ex_guest_ring :: CartItem where
  "ex_guest_ring = \<lparr>ci_id = ''c2'', ci_userId = None, ci_sessionId = Some ''s1'',
                     ci_productId = ''pRing'', ci_variantId = None, ci_quantity = 3\<rparr>"

definition ex_guest_scarf :: CartItem where
  "ex_guest_scarf = \<lparr>ci_id = ''c3'', ci_userId = None, ci_sessionId = Some ''s1'',
                      ci_productId = ''pScarf'', ci_variantId = Some ''vLarge'', ci_quantity = 1\<rparr>"

definition ex_db_guest :: db where
  "ex_db_guest = ex_db\<lparr>cartItems := [ex_cart_ring, ex_guest_ring, ex_guest_scarf]\<rparr>"

section \<open>Inventory loop: what it computes\<close>

lemma adjust_inventory_ok:
  assumes "\<forall>i\<in>set items. stock_row_exists d i"
  shows "adjust_inventory k d items =
     (d\<lparr>products := (\<lambda>pid. map_option (\<lambda>p. p\<lparr>p_quantity := p_quantity p + k * ordered_product items pid\<rparr>) (products d pid)),
        variants := (\<lambda>vid. map_option (\<lambda>v. v\<lparr>v_quantity := v_quantity v + k * ordered_variant items vid\<rparr>) (variants d vid))\<rparr>, None)"
  using assms
proof (induction items arbitrary: d)
  case Nil
  show ?case
    by (simp add: ordered_product_def ordered_variant_def option.map_ident map_option.identity)
next
  case (Cons item rest)
  show ?case
  proof (cases "js_truthy (oi_variantId item)")
    case None
    with Cons.prems obtain p where p: "products d (oi_productId item) = Some p"
      by (auto simp: stock_row_exists_def)
    let ?d1 = "d\<lparr>products := (products d)(oi_productId item \<mapsto> p\<lparr>p_quantity := p_quantity p + k * oi_quantity item\<rparr>)\<rparr>"
    have ex: "\<forall>i\<in>set rest. stock_row_exists ?d1 i"
      using Cons.prems by (auto simp: stock_row_exists_def split: option.splits)
    show ?thesis
      using None p Cons.IH[OF ex]
      by (auto simp: product_update_def ordered_product_def ordered_variant_def fun_eq_iff algebra_simps)
  next
    case (Some vid)
    with Cons.prems obtain v where v: "variants d vid = Some v"
      by (auto simp: stock_row_exists_def)
    let ?d1 = "d\<lparr>variants := (variants d)(vid \<mapsto> v\<lparr>v_quantity := v_quantity v + k * oi_quantity item\<rparr>)\<rparr>"
    have ex: "\<forall>i\<in>set rest. stock_row_exists ?d1 i"
      using Cons.prems by (auto simp: stock_row_exists_def split: option.splits)
    show ?thesis
      using Some v Cons.IH[OF ex]
      by (auto simp: variant_update_def ordered_product_def ordered_variant_def fun_eq_iff algebra_simps)
  qed
qed

lemma adjust_inventory_orders:
  "orders (fst (adjust_inventory k d items)) = orders d"
  by (induction items arbitrary: d)
     (simp_all add: product_update_def variant_update_def split: option.splits sum.splits)

lemma find_Some_holds: "find P xs = Some x \<Longrightarrow> P x \<and> x \<in> set xs"
  by (induction xs) (auto split: if_splits)

lemma find_order_map:
  assumes "\<And>x. o_id (f x) = o_id x"
  shows "find (\<lambda>r. o_id r = oid) (map (\<lambda>x. if o_id x = oid then f x else x) xs)
         = map_option f (find (\<lambda>r. o_id r = oid) xs)"
  using assms by (induction xs) auto

lemma find_discount_map:
  assumes "\<And>x. dc_id (f x) = dc_id x"
  shows "find (\<lambda>c. dc_id c = cid) (map (\<lambda>x. if dc_id x = cid' then f x else x) xs)
         = map_option (\<lambda>x. if dc_id x = cid' then f x else x) (find (\<lambda>c. dc_id c = cid) xs)"
  using assms by (induction xs) auto

section \<open>Payment confirmation: one delivery\<close>

text \<open>
  When the event names an order that exists and the rows its line items and discount
  code point to exist, the handler runs to its end, and the database it leaves is the
  following.
\<close>

lemma handleCheckoutComplete_ok:
  assumes meta: "so_metadata s = Some m" "map_of m ''orderId'' = Some oid" "oid \<noteq> []"
    and ord: "order_findUnique d oid = Some r"
    and rows: "\<forall>i\<in>set (o_items r). stock_row_exists d i"
    and disc: "discount_row_exists d r"
  shows "handleCheckoutComplete d s =
     d\<lparr>orders := map (\<lambda>x. if o_id x = oid then confirm_paid x else x) (orders d),
       products := (\<lambda>pid. map_option (\<lambda>p. p\<lparr>p_quantity := p_quantity p - ordered_product (o_items r) pid\<rparr>) (products d pid)),
       variants := (\<lambda>vid. map_option (\<lambda>v. v\<lparr>v_quantity := v_quantity v - ordered_variant (o_items r) vid\<rparr>) (variants d vid)),
       discountCodes := (case js_truthy (o_discountCodeId r) of
                           None \<Rightarrow> discountCodes d
                         | Some cid \<Rightarrow> map (\<lambda>x. if dc_id x = cid then x\<lparr>dc_usedCount := dc_usedCount x + 1\<rparr> else x) (discountCodes d)),
       cartItems := (case js_truthy (o_userId r) of
                       None \<Rightarrow> cartItems d
                     | Some uid \<Rightarrow> filter (\<lambda>c. ci_userId c \<noteq> Some uid) (cartItems d))\<rparr>"
proof -
  let ?d1 = "d\<lparr>orders := map (\<lambda>x. if o_id x = oid then confirm_paid x else x) (orders d)\<rparr>"
  have t: "js_truthy (map_of m ''orderId'') = Some oid"
    using meta by (simp add: js_truthy_def)
  have upd: "order_update oid confirm_paid d = Inr (?d1, confirm_paid r)"
    using ord by (simp add: order_update_def)
  have rows1: "\<forall>i\<in>set (o_items (confirm_paid r)). stock_row_exists ?d1 i"
    using rows by (auto simp: confirm_paid_def stock_row_exists_def split: option.splits)
  note inv = adjust_inventory_ok[OF rows1, of "- 1"]
  show ?thesis
  proof (cases "js_truthy (o_discountCodeId r)")
    case None
    then show ?thesis
      using meta t upd inv
      by (cases "js_truthy (o_userId r)")
         (simp_all add: handleCheckoutComplete_def decrement_inventory_def confirm_paid_def
            cartItem_deleteMany_user_def)
  next
    case (Some cid)
    with disc obtain c where c: "find (\<lambda>c. dc_id c = cid) (discountCodes d) = Some c"
      by (auto simp: discount_row_exists_def)
    show ?thesis
      using meta t upd inv Some c
      by (cases "js_truthy (o_userId r)")
         (simp_all add: handleCheckoutComplete_def decrement_inventory_def confirm_paid_def
            cartItem_deleteMany_user_def discountCode_update_def)
  qed
qed

lemma handleCheckoutComplete_keeps_preconditions:
  assumes meta: "so_metadata s = Some m" "map_of m ''orderId'' = Some oid" "oid \<noteq> []"
    and ord: "order_findUnique d oid = Some r"
    and rows: "\<forall>i\<in>set (o_items r). stock_row_exists d i"
    and disc: "discount_row_exists d r"
  shows "order_findUnique (handleCheckoutComplete d s) oid = Some (confirm_paid r)"
    and "\<forall>i\<in>set (o_items (confirm_paid r)). stock_row_exists (handleCheckoutComplete d s) i"
    and "discount_row_exists (handleCheckoutComplete d s) (confirm_paid r)"
proof -
  note eq = handleCheckoutComplete_ok[OF assms]
  have idk: "\<And>x. o_id (confirm_paid x) = o_id x"
    by (simp add: confirm_paid_def)
  show "order_findUnique (handleCheckoutComplete d s) oid = Some (confirm_paid r)"
    using ord by (simp add: eq order_findUnique_def find_order_map[OF idk])
  show "\<forall>i\<in>set (o_items (confirm_paid r)). stock_row_exists (handleCheckoutComplete d s) i"
    using rows by (auto simp: eq confirm_paid_def stock_row_exists_def split: option.splits)
  show "discount_row_exists (handleCheckoutComplete d s) (confirm_paid r)"
    using disc
    by (auto simp: eq confirm_paid_def discount_row_exists_def find_discount_map split: option.splits)
qed

lemma handleCheckoutComplete_stock:
  assumes meta: "so_metadata s = Some m" "map_of m ''orderId'' = Some oid" "oid \<noteq> []"
    and ord: "order_findUnique d oid = Some r"
    and rows: "\<forall>i\<in>set (o_items r). stock_row_exists d i"
    and disc: "discount_row_exists d r"
  shows "product_stock (handleCheckoutComplete d s) pid
           = map_option (\<lambda>q. q - ordered_product (o_items r) pid) (product_stock d pid)"
    and "variant_stock (handleCheckoutComplete d s) vid
           = map_option (\<lambda>q. q - ordered_variant (o_items r) vid) (variant_stock d vid)"
    and "js_truthy (o_discountCodeId r) = Some cid \<Longrightarrow>
           usage_counter (handleCheckoutComplete d s) cid = map_option (\<lambda>n. n + 1) (usage_counter d cid)"
proof -
  note eq = handleCheckoutComplete_ok[OF assms]
  show "product_stock (handleCheckoutComplete d s) pid
           = map_option (\<lambda>q. q - ordered_product (o_items r) pid) (product_stock d pid)"
    by (simp add: eq product_stock_def option.map_comp comp_def)
  show "variant_stock (handleCheckoutComplete d s) vid
           = map_option (\<lambda>q. q - ordered_variant (o_items r) vid) (variant_stock d vid)"
    by (simp add: eq variant_stock_def option.map_comp comp_def)
  show "usage_counter (handleCheckoutComplete d s) cid = map_option (\<lambda>n. n + 1) (usage_counter d cid)"
    if "js_truthy (o_discountCodeId r) = Some cid"
  proof (cases "find (\<lambda>c. dc_id c = cid) (discountCodes d)")
    case None
    then show ?thesis
      using that by (simp add: eq usage_counter_def find_discount_map)
  next
    case (Some c)
    then have "dc_id c = cid"
      by (auto dest: find_Some_holds)
    then show ?thesis
      using that Some by (simp add: eq usage_counter_def find_discount_map)
  qed
qed

section \<open>Properties of the webhook\<close>

text \<open>
  C1. The claim is that a second delivery of the same completed-session event leaves
  stock and the usage counter unchanged. The handler does not look at the order's
  payment status, and the second delivery does what the first did: in the example the
  rings go from 10 to 8 to 6, the large scarves from 4 to 3 to 2 and the usage counter of
  the code from 0 to 1 to 2.
\<close>

theorem webhook_redelivery_counterexample:
  "product_stock (fst (stripe_webhook ex_constructEvent ''whsec'' ex_db_order ''{}'' ''good'')) ''pRing'' = Some 8
   \<and> product_stock (fst (stripe_webhook ex_constructEvent ''whsec''
         (fst (stripe_webhook ex_constructEvent ''whsec'' ex_db_order ''{}'' ''good'')) ''{}'' ''good'')) ''pRing'' = Some 6
   \<and> usage_counter (fst (stripe_webhook ex_constructEvent ''whsec'' ex_db_order ''{}'' ''good'')) ''d1'' = Some 1
   \<and> usage_counter (fst (stripe_webhook ex_constructEvent ''whsec''
         (fst (stripe_webhook ex_constructEvent ''whsec'' ex_db_order ''{}'' ''good'')) ''{}'' ''good'')) ''d1'' = Some 2"
  by code_simp

text \<open>
  C1, as the handler behaves. Let a completed-session event with a valid signature name
  an order that exists, whose line items and discount code point to rows that exist.
  Every delivery of it, the first and a repeated one alike, decrements the stock of each
  line item's variant (or product, when the item has no variant) by the ordered quantity
  and increments the usage counter of the order's discount code by one: after two
  deliveries stock has been decremented twice and the counter incremented twice.
\<close>

theorem webhook_redelivery_repeats_effects:
  assumes ev: "constructEvent body sig secret = Inr ev"
      "ev_type ev = ''checkout.session.completed''"
    and meta: "so_metadata (ev_object ev) = Some m" "map_of m ''orderId'' = Some oid" "oid \<noteq> []"
    and ord: "order_findUnique d oid = Some r"
    and rows: "\<forall>i\<in>set (o_items r). stock_row_exists d i"
    and disc: "discount_row_exists d r"
    and d1: "d1 = fst (stripe_webhook constructEvent secret d body sig)"
    and d2: "d2 = fst (stripe_webhook constructEvent secret d1 body sig)"
  shows "product_stock d1 pid = map_option (\<lambda>q. q - ordered_product (o_items r) pid) (product_stock d pid)
       \<and> product_stock d2 pid = map_option (\<lambda>q. q - ordered_product (o_items r) pid) (product_stock d1 pid)
       \<and> variant_stock d1 vid = map_option (\<lambda>q. q - ordered_variant (o_items r) vid) (variant_stock d vid)
       \<and> variant_stock d2 vid = map_option (\<lambda>q. q - ordered_variant (o_items r) vid) (variant_stock d1 vid)
       \<and> (js_truthy (o_discountCodeId r) = Some cid \<longrightarrow>
            usage_counter d1 cid = map_option (\<lambda>n. n + 1) (usage_counter d cid)
          \<and> usage_counter d2 cid = map_option (\<lambda>n. n + 1) (usage_counter d1 cid))"
proof -
  let ?s = "ev_object ev"
  have e1: "d1 = handleCheckoutComplete d ?s"
    using ev d1 by (simp add: stripe_webhook_def)
  have e2: "d2 = handleCheckoutComplete d1 ?s"
    using ev d2 by (simp add: stripe_webhook_def)
  note k = handleCheckoutComplete_keeps_preconditions[OF meta ord rows disc, folded e1]
  note s1 = handleCheckoutComplete_stock[OF meta ord rows disc, folded e1]
  note s2 = handleCheckoutComplete_stock[OF meta k, folded e2]
  have items: "o_items (confirm_paid r) = o_items r" "o_discountCodeId (confirm_paid r) = o_discountCodeId r"
    by (simp_all add: confirm_paid_def)
  show ?thesis
    using s1 s2 by (simp add: items)
qed

theorem webhook_redelivery_witness:
  "variant_stock ex_db_order ''vLarge'' = Some 4
   \<and> variant_stock (fst (stripe_webhook ex_constructEvent ''whsec'' ex_db_order ''{}'' ''good'')) ''vLarge'' = Some 3
   \<and> variant_stock (fst (stripe_webhook ex_constructEvent ''whsec''
         (fst (stripe_webhook ex_constructEvent ''whsec'' ex_db_order ''{}'' ''good'')) ''{}'' ''good'')) ''vLarge'' = Some 2
   \<and> usage_counter (fst (stripe_webhook ex_constructEvent ''whsec''
         (fst (stripe_webhook ex_constructEvent ''whsec'' ex_db_order ''{}'' ''good'')) ''{}'' ''good'')) ''d1''
       = map_option (\<lambda>n. n + 1) (usage_counter (fst (stripe_webhook ex_constructEvent ''whsec'' ex_db_order ''{}'' ''good'')) ''d1'')"
proof -
  have ev: "ex_constructEvent ''{}'' ''good'' ''whsec'' = Inr ex_event"
      "ev_type ex_event = ''checkout.session.completed''"
    by (simp_all add: ex_constructEvent_def ex_event_def)
  have meta: "so_metadata (ev_object ex_event) = Some [(''orderId'', ''o1''), (''orderNumber'', ''ZPS-20240115-A3B7'')]"
      "map_of [(''orderId'', ''o1''), (''orderNumber'', ''ZPS-20240115-A3B7'')] ''orderId'' = Some ''o1''"
      "''o1'' \<noteq> []"
    by (simp_all add: ex_event_def ex_session_def)
  have ord: "order_findUnique ex_db_order ''o1'' = Some ex_order"
    by (simp add: order_findUnique_def ex_db_order_def ex_order_def)
  have rows: "\<forall>i\<in>set (o_items ex_order). stock_row_exists ex_db_order i"
    by (simp add: ex_order_def stock_row_exists_def js_truthy_def ex_db_order_def ex_db_def)
  have disc: "discount_row_exists ex_db_order ex_order"
    by (simp add: discount_row_exists_def ex_order_def js_truthy_def ex_db_order_def ex_db_def
          ex_welcome10_def)
  have cid: "js_truthy (o_discountCodeId ex_order) = Some ''d1''"
    by (simp add: ex_order_def js_truthy_def)
  have q: "ordered_variant (o_items ex_order) ''vLarge'' = 1"
    by (simp add: ordered_variant_def ex_order_def js_truthy_def)
  have s0: "variant_stock ex_db_order ''vLarge'' = Some 4"
    by (simp add: variant_stock_def ex_db_order_def ex_db_def ex_scarf_large_def)
  show ?thesis
    using webhook_redelivery_repeats_effects
        [where constructEvent = ex_constructEvent and body = "''{}''" and sig = "''good''"
           and secret = "''whsec''" and pid = "''pRing''" and vid = "''vLarge''" and cid = "''d1''",
         OF ev meta ord rows disc refl refl] cid
    by (simp add: q s0)
qed



text \<open>
  C5. A webhook request whose signature does not verify is answered with status 400 and
  changes nothing: the database after the request is the database before it.
\<close>

theorem webhook_bad_signature_no_change:
  assumes "constructEvent body sig secret = Inl msg"
  shows "fst (stripe_webhook constructEvent secret d body sig) = d
       \<and> webhook_status (snd (stripe_webhook constructEvent secret d body sig)) = 400"
  using assms by (simp add: stripe_webhook_def)

theorem webhook_bad_signature_witness:
  "fst (stripe_webhook ex_constructEvent ''whsec'' ex_db_order ''{}'' ''forged'') = ex_db_order
   \<and> webhook_status (snd (stripe_webhook ex_constructEvent ''whsec'' ex_db_order ''{}'' ''forged'')) = 400"
  using webhook_bad_signature_no_change
    [of ex_constructEvent "''{}''" "''forged''" "''whsec''" "''signature mismatch''" ex_db_order]
  by (simp add: ex_constructEvent_def)

section \<open>Properties of cancellation\<close>

lemma mark_cancelled_simps:
  "o_id (mark_cancelled order now reason x) = o_id x"
  "o_items (mark_cancelled order now reason x) = o_items x"
  "o_status (mark_cancelled order now reason x) = CANCELLED"
  "o_paymentStatus (mark_cancelled order now reason x)
     = (if o_paymentStatus order = PAID then PAY_REFUNDED else o_paymentStatus order)"
  by (simp_all add: mark_cancelled_def)

lemma cancel_order_unpaid:
  assumes ord: "order_findUnique d oid = Some r" and own: "o_userId r = Some uid"
    and st: "o_status r = PENDING" and pay: "o_paymentStatus r \<noteq> PAID"
  shows "snd (snd (cancel_order gw now d uid oid reason)) = []"
    and "map_option o_status (order_findUnique (fst (cancel_order gw now d uid oid reason)) oid) = Some CANCELLED"
    and "map_option o_paymentStatus (order_findUnique (fst (cancel_order gw now d uid oid reason)) oid)
           = Some (o_paymentStatus r)"
proof -
  let ?f = "mark_cancelled r now reason"
  let ?d1 = "d\<lparr>orders := map (\<lambda>x. if o_id x = oid then ?f x else x) (orders d)\<rparr>"
  obtain d2 err where inv: "restore_inventory ?d1 (o_items (?f r)) = (d2, err)"
    by (cases "restore_inventory ?d1 (o_items (?f r))")
  have o2: "orders d2 = orders ?d1"
    using adjust_inventory_orders[of 1 ?d1 "o_items (?f r)"] inv
    by (simp add: restore_inventory_def)
  have rf: "refund_if_paid gw r = (None, [])"
    using pay by (simp add: refund_if_paid_def)
  have upd: "order_update oid ?f d = Inr (?d1, ?f r)"
    using ord by (simp add: order_update_def)
  have c: "fst (cancel_order gw now d uid oid reason) = d2
         \<and> snd (snd (cancel_order gw now d uid oid reason)) = []"
    using ord own st rf upd inv by (cases err) (simp_all add: cancel_order_def)
  have found: "order_findUnique (fst (cancel_order gw now d uid oid reason)) oid = Some (?f r)"
    using ord by (simp add: c o2 order_findUnique_def find_order_map mark_cancelled_simps)
  show "snd (snd (cancel_order gw now d uid oid reason)) = []"
    by (simp add: c)
  show "map_option o_status (order_findUnique (fst (cancel_order gw now d uid oid reason)) oid) = Some CANCELLED"
    by (simp add: found mark_cancelled_simps)
  show "map_option o_paymentStatus (order_findUnique (fst (cancel_order gw now d uid oid reason)) oid)
           = Some (o_paymentStatus r)"
    using pay by (simp add: found mark_cancelled_simps)
qed

lemma cancel_order_paid:
  assumes ord: "order_findUnique d oid = Some r" and own: "o_userId r = Some uid"
    and st: "o_status r = CONFIRMED" and pay: "o_paymentStatus r = PAID"
    and ref: "js_truthy (o_stripePaymentId r) = Some sid"
    and ret: "gw_sessions_retrieve gw sid = Inr sess"
    and intent: "js_truthy (so_payment_intent sess) = Some intent"
    and refund: "gw_refunds_create gw intent = Inr ()"
    and rows: "\<forall>i\<in>set (o_items r). stock_row_exists d i"
  shows "snd (snd (cancel_order gw now d uid oid reason)) = [intent]"
    and "product_stock (fst (cancel_order gw now d uid oid reason)) pid
           = map_option (\<lambda>q. q + ordered_product (o_items r) pid) (product_stock d pid)"
    and "variant_stock (fst (cancel_order gw now d uid oid reason)) vid
           = map_option (\<lambda>q. q + ordered_variant (o_items r) vid) (variant_stock d vid)"
    and "map_option o_status (order_findUnique (fst (cancel_order gw now d uid oid reason)) oid) = Some CANCELLED"
    and "map_option o_paymentStatus (order_findUnique (fst (cancel_order gw now d uid oid reason)) oid)
           = Some PAY_REFUNDED"
proof -
  let ?f = "mark_cancelled r now reason"
  let ?d1 = "d\<lparr>orders := map (\<lambda>x. if o_id x = oid then ?f x else x) (orders d)\<rparr>"
  have rf: "refund_if_paid gw r = (None, [intent])"
    using pay ref ret intent refund by (simp add: refund_if_paid_def)
  have upd: "order_update oid ?f d = Inr (?d1, ?f r)"
    using ord by (simp add: order_update_def)
  have rows1: "\<forall>i\<in>set (o_items (?f r)). stock_row_exists ?d1 i"
    using rows by (auto simp: stock_row_exists_def mark_cancelled_simps split: option.splits)
  note inv = adjust_inventory_ok[OF rows1, of 1]
  have c: "cancel_order gw now d uid oid reason =
        (?d1\<lparr>products := (\<lambda>pid. map_option (\<lambda>p. p\<lparr>p_quantity := p_quantity p + ordered_product (o_items r) pid\<rparr>) (products d pid)),
              variants := (\<lambda>vid. map_option (\<lambda>v. v\<lparr>v_quantity := v_quantity v + ordered_variant (o_items r) vid\<rparr>) (variants d vid))\<rparr>,
         OrderCancelled (?f r), [intent])"
    using ord own st rf upd inv by (simp add: cancel_order_def restore_inventory_def mark_cancelled_simps)
  show "snd (snd (cancel_order gw now d uid oid reason)) = [intent]"
    by (simp add: c)
  show "product_stock (fst (cancel_order gw now d uid oid reason)) pid
           = map_option (\<lambda>q. q + ordered_product (o_items r) pid) (product_stock d pid)"
    by (simp add: c product_stock_def option.map_comp comp_def)
  show "variant_stock (fst (cancel_order gw now d uid oid reason)) vid
           = map_option (\<lambda>q. q + ordered_variant (o_items r) vid) (variant_stock d vid)"
    by (simp add: c variant_stock_def option.map_comp comp_def)
  have found: "order_findUnique (fst (cancel_order gw now d uid oid reason)) oid = Some (?f r)"
    using ord by (simp add: c order_findUnique_def find_order_map mark_cancelled_simps)
  show "map_option o_status (order_findUnique (fst (cancel_order gw now d uid oid reason)) oid) = Some CANCELLED"
    by (simp add: found mark_cancelled_simps)
  show "map_option o_paymentStatus (order_findUnique (fst (cancel_order gw now d uid oid reason)) oid)
           = Some PAY_REFUNDED"
    using pay by (simp add: found mark_cancelled_simps)
qed

text \<open>
  C2. The claim has two parts. The first says that cancelling a PENDING order that is not
  paid leaves stock unchanged: the route restores inventory whatever the payment status,
  and in the example the rings, never decremented, go from 10 to 12. The second says that
  cancelling a CONFIRMED, PAID order issues exactly one refund call: the route asks for a
  refund only when the order has a payment session reference (and the session a payment
  intent), and for the paid order without one it makes no call.
\<close>

theorem cancel_order_counterexample:
  "o_status ex_order = PENDING \<and> o_paymentStatus ex_order = PAY_PENDING
   \<and> order_findUnique ex_db_order ''o1'' = Some ex_order
   \<and> product_stock ex_db_order ''pRing'' = Some 10
   \<and> product_stock (fst (cancel_order ex_gateway 0 ex_db_order ''u1'' ''o1'' None)) ''pRing'' = Some 12
   \<and> o_status ex_order_noref = CONFIRMED \<and> o_paymentStatus ex_order_noref = PAID
   \<and> order_findUnique ex_db_noref ''o1'' = Some ex_order_noref
   \<and> snd (snd (cancel_order ex_gateway 0 ex_db_noref ''u1'' ''o1'' None)) = []"
  by code_simp

text \<open>
  C2, as the route behaves, for an order that exists and belongs to the caller. If it is
  PENDING and not PAID, cancelling makes no refund call, sets the status CANCELLED and
  keeps the payment status. If it is CONFIRMED and PAID, has a payment session reference,
  the gateway returns that session with a payment intent and accepts the refund, and the
  line items point to rows that exist, cancelling makes exactly one refund call (for that
  payment intent), sets the status CANCELLED and the payment status REFUNDED, and
  increments the stock of each line item's variant (or product, when the item has no
  variant) by the ordered quantity.
\<close>

theorem cancel_order_effects:
  assumes ord: "order_findUnique d oid = Some r" and own: "o_userId r = Some uid"
    and res: "res = cancel_order gw now d uid oid reason"
  shows "(o_status r = PENDING \<and> o_paymentStatus r \<noteq> PAID \<longrightarrow>
            snd (snd res) = []
          \<and> map_option o_status (order_findUnique (fst res) oid) = Some CANCELLED
          \<and> map_option o_paymentStatus (order_findUnique (fst res) oid) = Some (o_paymentStatus r))
       \<and> (o_status r = CONFIRMED \<and> o_paymentStatus r = PAID
          \<and> js_truthy (o_stripePaymentId r) = Some sid \<and> gw_sessions_retrieve gw sid = Inr sess
          \<and> js_truthy (so_payment_intent sess) = Some intent \<and> gw_refunds_create gw intent = Inr ()
          \<and> (\<forall>i\<in>set (o_items r). stock_row_exists d i) \<longrightarrow>
            snd (snd res) = [intent]
          \<and> product_stock (fst res) pid = map_option (\<lambda>q. q + ordered_product (o_items r) pid) (product_stock d pid)
          \<and> variant_stock (fst res) vid = map_option (\<lambda>q. q + ordered_variant (o_items r) vid) (variant_stock d vid)
          \<and> map_option o_status (order_findUnique (fst res) oid) = Some CANCELLED
          \<and> map_option o_paymentStatus (order_findUnique (fst res) oid) = Some PAY_REFUNDED)"
proof (intro conjI impI)
  assume a: "o_status r = PENDING \<and> o_paymentStatus r \<noteq> PAID"
  note u = cancel_order_unpaid[OF ord own conjunct1[OF a] conjunct2[OF a], of gw now reason, folded res]
  show "snd (snd res) = []" by (rule u(1))
  show "map_option o_status (order_findUnique (fst res) oid) = Some CANCELLED" by (rule u(2))
  show "map_option o_paymentStatus (order_findUnique (fst res) oid) = Some (o_paymentStatus r)" by (rule u(3))
next
  assume a: "o_status r = CONFIRMED \<and> o_paymentStatus r = PAID
          \<and> js_truthy (o_stripePaymentId r) = Some sid \<and> gw_sessions_retrieve gw sid = Inr sess
          \<and> js_truthy (so_payment_intent sess) = Some intent \<and> gw_refunds_create gw intent = Inr ()
          \<and> (\<forall>i\<in>set (o_items r). stock_row_exists d i)"
  then have h: "o_status r = CONFIRMED" "o_paymentStatus r = PAID"
      "js_truthy (o_stripePaymentId r) = Some sid" "gw_sessions_retrieve gw sid = Inr sess"
      "js_truthy (so_payment_intent sess) = Some intent" "gw_refunds_create gw intent = Inr ()"
      "\<forall>i\<in>set (o_items r). stock_row_exists d i"
    by simp_all
  note p = cancel_order_paid[OF ord own h, of now reason, folded res]
  show "snd (snd res) = [intent]" by (rule p(1))
  show "product_stock (fst res) pid = map_option (\<lambda>q. q + ordered_product (o_items r) pid) (product_stock d pid)"
    by (rule p(2))
  show "variant_stock (fst res) vid = map_option (\<lambda>q. q + ordered_variant (o_items r) vid) (variant_stock d vid)"
    by (rule p(3))
  show "map_option o_status (order_findUnique (fst res) oid) = Some CANCELLED" by (rule p(4))
  show "map_option o_paymentStatus (order_findUnique (fst res) oid) = Some PAY_REFUNDED" by (rule p(5))
qed

theorem cancel_order_witness:
  "snd (snd (cancel_order ex_gateway 0 ex_db_order ''u1'' ''o1'' None)) = []
   \<and> map_option o_status (order_findUnique (fst (cancel_order ex_gateway 0 ex_db_order ''u1'' ''o1'' None)) ''o1'')
       = Some CANCELLED
   \<and> snd (snd (cancel_order ex_gateway 0 ex_db_paid ''u1'' ''o1'' None)) = [''pi_1'']
   \<and> product_stock ex_db_paid ''pRing'' = Some 8
   \<and> product_stock (fst (cancel_order ex_gateway 0 ex_db_paid ''u1'' ''o1'' None)) ''pRing'' = Some 10
   \<and> variant_stock ex_db_paid ''vLarge'' = Some 3
   \<and> variant_stock (fst (cancel_order ex_gateway 0 ex_db_paid ''u1'' ''o1'' None)) ''vLarge'' = Some 4
   \<and> map_option o_paymentStatus (order_findUnique (fst (cancel_order ex_gateway 0 ex_db_paid ''u1'' ''o1'' None)) ''o1'')
       = Some PAY_REFUNDED"
proof -
  have o1: "order_findUnique ex_db_order ''o1'' = Some ex_order" "o_userId ex_order = Some ''u1''"
      "o_status ex_order = PENDING \<and> o_paymentStatus ex_order \<noteq> PAID"
    by code_simp+
  have o2: "order_findUnique ex_db_paid ''o1'' = Some (confirm_paid ex_order)"
      "o_userId (confirm_paid ex_order) = Some ''u1''"
    by code_simp+
  have h2: "o_status (confirm_paid ex_order) = CONFIRMED \<and> o_paymentStatus (confirm_paid ex_order) = PAID
          \<and> js_truthy (o_stripePaymentId (confirm_paid ex_order)) = Some ''cs_1''
          \<and> gw_sessions_retrieve ex_gateway ''cs_1'' = Inr ex_session
          \<and> js_truthy (so_payment_intent ex_session) = Some ''pi_1''
          \<and> gw_refunds_create ex_gateway ''pi_1'' = Inr ()
          \<and> (\<forall>i\<in>set (o_items (confirm_paid ex_order)). stock_row_exists ex_db_paid i)"
    by code_simp
  have q: "ordered_product (o_items (confirm_paid ex_order)) ''pRing'' = 2"
      "ordered_variant (o_items (confirm_paid ex_order)) ''vLarge'' = 1"
      "product_stock ex_db_paid ''pRing'' = Some 8" "variant_stock ex_db_paid ''vLarge'' = Some 3"
    by code_simp+
  show ?thesis
    using cancel_order_effects[OF o1(1) o1(2) refl, where gw = ex_gateway and now = 0 and reason = None] o1(3)
      cancel_order_effects[OF o2 refl, where gw = ex_gateway and sid = "''cs_1''" and sess = ex_session
        and intent = "''pi_1''" and now = 0 and reason = None and pid = "''pRing''" and vid = "''vLarge''"] h2
    by (simp add: q)
qed

section \<open>Properties of checkout\<close>

lemma verify_stock_eq:
  "verify_stock rows subtotal lineItems orderItems =
     (case find insufficient_stock rows of
        Some item \<Rightarrow> Inl (InsufficientStockError (ci_productId (cr_item item)) (item_availableQty item))
      | None \<Rightarrow> Inr (subtotal + sum_list (map (\<lambda>i. item_price i * of_int (ci_quantity (cr_item i))) rows),
                     lineItems @ map make_lineItem rows,
                     orderItems @ map make_orderItem rows))"
  by (induction rows arbitrary: subtotal lineItems orderItems)
     (auto simp: insufficient_stock_def algebra_simps split: option.splits)


text \<open>
  C7. When the cart of the request's identity has no rows, checkout answers
  \<open>EmptyCartError\<close> and the database, its orders among the rest, is as before.
\<close>

theorem checkout_empty_cart:
  assumes "cartItem_where_identity d userId sessionId = []"
  shows "checkout gw env d userId sessionId body = (d, Inl EmptyCartError)"
  using assms by (simp add: checkout_def cartItem_findMany_def)

theorem checkout_empty_cart_witness:
  "checkout ex_gateway ex_env ex_db (Some ''u2'') None (ex_body None) = (ex_db, Inl EmptyCartError)"
proof -
  have "cartItem_where_identity ex_db (Some ''u2'') None = []"
    by code_simp
  then show ?thesis
    by (rule checkout_empty_cart)
qed

text \<open>
  C6. When some row of the cart asks for more than is available (of the variant if the
  row has one, else of the product) and the product does not allow backorder, checkout
  answers \<open>InsufficientStockError\<close> with the product id and the available quantity of
  such a row (the first one in the cart), and the database is as before: no order is
  created.
\<close>

theorem checkout_insufficient_stock:
  assumes rows: "cartItem_findMany d userId sessionId = Some rows"
    and mem: "item0 \<in> set rows" and bad: "insufficient_stock item0"
  shows "\<exists>item. find insufficient_stock rows = Some item
           \<and> checkout gw env d userId sessionId body
               = (d, Inl (InsufficientStockError (ci_productId (cr_item item)) (item_availableQty item)))"
proof -
  from mem bad obtain item where f: "find insufficient_stock rows = Some item"
    by (cases "find insufficient_stock rows") (auto simp: find_None_iff)
  from mem have ne: "rows \<noteq> []" by auto
  show ?thesis
    using rows f ne by (simp add: checkout_def verify_stock_eq)
qed

theorem checkout_insufficient_stock_witness:
  "checkout ex_gateway ex_env ex_db_greedy (Some ''u1'') None (ex_body None)
     = (ex_db_greedy, Inl (InsufficientStockError ''pRing'' 10))"
proof -
  let ?row = "\<lparr>cr_item = ex_cart_ring\<lparr>ci_quantity := 11\<rparr>, cr_product = ex_ring, cr_variant = None\<rparr>"
  have rows: "cartItem_findMany ex_db_greedy (Some ''u1'') None = Some [?row]"
    by code_simp
  have bad: "insufficient_stock ?row"
    by code_simp
  have v: "ci_productId (cr_item ?row) = ''pRing''" "item_availableQty ?row = 10"
    by code_simp+
  show ?thesis
    using checkout_insufficient_stock[OF rows _ bad, of ex_gateway ex_env "ex_body None"] bad v
    by auto
qed

lemma place_order_new_row:
  assumes new: "r \<in> set (orders (fst (place_order gw env d userId body subtotal lineItems orderItems discountAmount rec)))"
      "r \<notin> set (orders d)"
  shows "r\<lparr>o_stripePaymentId := None\<rparr> =
           new_order env userId body
             (case js_truthy userId of None \<Rightarrow> None | Some uid \<Rightarrow> Some (env_newAddressId env))
             subtotal discountAmount rec orderItems"
proof -
  let ?aid = "case js_truthy userId of None \<Rightarrow> None | Some uid \<Rightarrow> Some (env_newAddressId env)"
  let ?order = "new_order env userId body ?aid subtotal discountAmount rec orderItems"
  have sp0: "?order\<lparr>o_stripePaymentId := None\<rparr> = ?order"
    by (simp add: new_order_def)
  show ?thesis
    using new sp0
    by (auto simp: place_order_def Let_def order_create_def order_update_def order_findUnique_def
        list_ex_iff split: if_splits sum.splits option.splits)
qed

lemma checkout_new_row:
  assumes rows: "cartItem_findMany d userId sessionId = Some rows"
    and new: "r \<in> set (orders (fst (checkout gw env d userId sessionId body)))" "r \<notin> set (orders d)"
  shows "\<exists>discountAmount rec.
           apply_discount d (env_now env) (cb_discountCode body)
             (sum_list (map (\<lambda>i. item_price i * of_int (ci_quantity (cr_item i))) rows)) = Inr (discountAmount, rec)
         \<and> r\<lparr>o_stripePaymentId := None\<rparr> =
             new_order env userId body
               (case js_truthy userId of None \<Rightarrow> None | Some uid \<Rightarrow> Some (env_newAddressId env))
               (sum_list (map (\<lambda>i. item_price i * of_int (ci_quantity (cr_item i))) rows))
               discountAmount rec (map make_orderItem rows)"
  using rows new
  by (auto simp: checkout_def verify_stock_eq split: if_splits option.splits sum.splits
      dest: place_order_new_row)








section \<open>Discount amounts and shipping\<close>

lemma discount_amount_by_type:
  "dc_type c = PERCENTAGE \<Longrightarrow> discount_amount subtotal c = subtotal * (dc_value c / 100)"
  "dc_type c = FIXED_AMOUNT \<Longrightarrow> discount_amount subtotal c = dc_value c"
  "dc_type c = FREE_SHIPPING \<Longrightarrow> discount_amount subtotal c = 0"
  by (simp_all add: discount_amount_def)

lemma discount_amount_ten_percent_of_200:
  "discount_amount 200 ex_welcome10 = 20"
  by (simp add: discount_amount_def ex_welcome10_def)

lemma checkout_discount_amount:
  assumes rows: "cartItem_findMany d userId sessionId = Some rows"
    and new: "r \<in> set (orders (fst (checkout gw env d userId sessionId body)))" "r \<notin> set (orders d)"
    and code: "js_truthy (cb_discountCode body) = Some code"
  shows "\<exists>c. discountCode_findUnique d (toUpperCase code) = Some c
           \<and> o_discountCodeId r = Some (dc_id c)
           \<and> o_discountAmount r = discount_amount (o_subtotal r) c
           \<and> o_shippingCost r = (if o_subtotal r > 200 then 0 else 25)"
proof -
  let ?sub = "sum_list (map (\<lambda>i. item_price i * of_int (ci_quantity (cr_item i))) rows)"
  from checkout_new_row[OF rows new] obtain discountAmount rec where
    a: "apply_discount d (env_now env) (cb_discountCode body) ?sub = Inr (discountAmount, rec)"
    and r: "r\<lparr>o_stripePaymentId := None\<rparr> =
             new_order env userId body
               (case js_truthy userId of None \<Rightarrow> None | Some uid \<Rightarrow> Some (env_newAddressId env))
               ?sub discountAmount rec (map make_orderItem rows)"
    by blast
  from a code obtain c where c: "discountCode_findUnique d (toUpperCase code) = Some c"
      "rec = Some c" "discountAmount = discount_amount ?sub c"
    by (auto simp: apply_discount_def split: option.splits if_splits)
  have f: "o_discountCodeId r = o_discountCodeId (r\<lparr>o_stripePaymentId := None\<rparr>)"
      "o_discountAmount r = o_discountAmount (r\<lparr>o_stripePaymentId := None\<rparr>)"
      "o_subtotal r = o_subtotal (r\<lparr>o_stripePaymentId := None\<rparr>)"
      "o_shippingCost r = o_shippingCost (r\<lparr>o_stripePaymentId := None\<rparr>)"
    by simp_all
  show ?thesis
    unfolding f r using c by (simp add: new_order_def shipping_cost_def)
qed

text \<open>
  C4. For a percentage code the discount amount is subtotal times value / 100 and for a
  fixed-amount code it is the code's value (\<open>checkout_discount_amount\<close> with
  \<open>discount_amount_by_type\<close>). For a free-shipping code the discount amount is 0, but the
  shipping cost is computed from the subtotal alone, whatever the code's type: with the
  seeded code \<open>FREESHIP\<close> on a subtotal of 100 the order is created with shipping cost
  25 and total 125, not with shipping cost 0.
\<close>

theorem checkout_free_shipping_code_charges_shipping:
  "dc_type ex_freeship = FREE_SHIPPING
   \<and> discountCode_findUnique ex_db (toUpperCase ''freeship'') = Some ex_freeship
   \<and> map (\<lambda>r. (o_discountCodeId r, o_subtotal r, o_discountAmount r, o_shippingCost r, o_total r))
        (orders (fst (checkout ex_gateway ex_env ex_db (Some ''u1'') None (ex_body (Some ''freeship'')))))
       = [(Some ''d3'', 100, 0, 25, 125)]"
  by code_simp

section \<open>Order numbers and the pending state\<close>

lemma order_number_format:
  assumes "length rnd36 \<ge> 6"
  shows "generateOrderNumber isoString rnd36
           = ''ZPS-'' @ filter (\<lambda>c. c \<noteq> CHR ''-'') (take 10 isoString) @ ''-''
               @ toUpperCase (take 4 (drop 2 rnd36))"
    and "length (toUpperCase (take 4 (drop 2 rnd36))) = 4"
  using assms by (simp_all add: generateOrderNumber_def substring_def toUpperCase_def)

lemma checkout_new_row_pending:
  assumes rows: "cartItem_findMany d userId sessionId = Some rows"
    and new: "r \<in> set (orders (fst (checkout gw env d userId sessionId body)))" "r \<notin> set (orders d)"
  shows "o_status r = PENDING \<and> o_paymentStatus r = PAY_PENDING
       \<and> o_orderNumber r = generateOrderNumber (env_isoString env) (env_random36 env)
       \<and> o_timeline r = [(''PENDING'', ''Order created, awaiting payment'')]"
proof -
  from checkout_new_row[OF rows new] obtain discountAmount rec where
    r: "r\<lparr>o_stripePaymentId := None\<rparr> =
             new_order env userId body
               (case js_truthy userId of None \<Rightarrow> None | Some uid \<Rightarrow> Some (env_newAddressId env))
               (sum_list (map (\<lambda>i. item_price i * of_int (ci_quantity (cr_item i))) rows))
               discountAmount rec (map make_orderItem rows)"
    by blast
  have f: "o_status r = o_status (r\<lparr>o_stripePaymentId := None\<rparr>)"
      "o_paymentStatus r = o_paymentStatus (r\<lparr>o_stripePaymentId := None\<rparr>)"
      "o_orderNumber r = o_orderNumber (r\<lparr>o_stripePaymentId := None\<rparr>)"
      "o_timeline r = o_timeline (r\<lparr>o_stripePaymentId := None\<rparr>)"
    by simp_all
  show ?thesis
    unfolding f r by (simp add: new_order_def)
qed

lemma place_order_number_collision:
  assumes "list_ex (\<lambda>x. o_orderNumber x = generateOrderNumber (env_isoString env) (env_random36 env)) (orders d)"
  shows "orders (fst (place_order gw env d userId body subtotal lineItems orderItems discountAmount rec)) = orders d"
    and "snd (place_order gw env d userId body subtotal lineItems orderItems discountAmount rec) = Inl CheckoutThrew"
  using assms
  by (auto simp: place_order_def Let_def order_create_def new_order_def list_ex_iff split: option.splits)

lemma checkout_order_number_collision:
  assumes "list_ex (\<lambda>x. o_orderNumber x = generateOrderNumber (env_isoString env) (env_random36 env)) (orders d)"
  shows "orders (fst (checkout gw env d userId sessionId body)) = orders d"
    and "\<exists>e. snd (checkout gw env d userId sessionId body) = Inl e"
  using place_order_number_collision[OF assms]
  by (auto simp: checkout_def split: option.splits sum.splits)

text \<open>
  C9. A new order is PENDING with payment status PENDING, and its number is the one
  \<open>generateOrderNumber\<close> returns (\<open>checkout_new_row_pending\<close>); a number that some
  order already has makes the creation fail and leaves the orders as they were
  (\<open>checkout_order_number_collision\<close>). The number has the documented form
  \<open>ZPS-YYYYMMDD-XXXX\<close> when the random number's base-36 rendering has at least four
  digits after the point (\<open>order_number_format\<close>). It need not have: the random number
  0.5 is rendered \<open>0.i\<close>, and the suffix is the single character \<open>I\<close>.
\<close>

theorem order_number_short_suffix:
  "generateOrderNumber ''2024-01-15T10:30:00.000Z'' ''0.i'' = ''ZPS-20240115-I''
   \<and> map o_orderNumber (orders (fst (checkout ex_gateway (ex_env\<lparr>env_random36 := ''0.i''\<rparr>) ex_db
        (Some ''u1'') None (ex_body None)))) = [''ZPS-20240115-I'']"
  by code_simp

section \<open>Properties of the cart merge\<close>

lemma map_update_absent:
  assumes "\<forall>x\<in>set cs. ci_id x \<noteq> i"
  shows "map (\<lambda>x. if ci_id x = i then f x else x) cs = cs"
  using assms by (induction cs) auto

lemma sum_update_by_id:
  fixes h :: "CartItem \<Rightarrow> int"
  assumes "distinct (map ci_id cs)" and "e \<in> set cs"
  shows "sum_list (map h (map (\<lambda>x. if ci_id x = ci_id e then f x else x) cs))
           = sum_list (map h cs) - h e + h (f e)"
  using assms
proof (induction cs)
  case Nil
  then show ?case by simp
next
  case (Cons c cs)
  show ?case
  proof (cases "c = e")
    case True
    with Cons.prems have "\<forall>x\<in>set cs. ci_id x \<noteq> ci_id e" by (auto simp: image_iff)
    then show ?thesis
      using True by (simp add: map_update_absent)
  next
    case False
    with Cons.prems have "e \<in> set cs" "ci_id c \<noteq> ci_id e" "distinct (map ci_id cs)"
      by auto
    then show ?thesis
      using Cons.IH by simp
  qed
qed

lemma sum_delete_by_id:
  fixes h :: "CartItem \<Rightarrow> int"
  assumes "distinct (map ci_id cs)" and "g \<in> set cs"
  shows "sum_list (map h (filter (\<lambda>x. ci_id x \<noteq> ci_id g) cs)) = sum_list (map h cs) - h g"
  using assms
proof (induction cs)
  case Nil
  then show ?case by simp
next
  case (Cons c cs)
  show ?case
  proof (cases "c = g")
    case True
    with Cons.prems have "\<forall>x\<in>set cs. ci_id x \<noteq> ci_id g" by (auto simp: image_iff)
    then have "filter (\<lambda>x. ci_id x \<noteq> ci_id g) cs = cs"
      by (simp add: filter_id_conv)
    then show ?thesis using True by simp
  next
    case False
    with Cons.prems have "g \<in> set cs" "ci_id c \<noteq> ci_id g" "distinct (map ci_id cs)"
      by auto
    then show ?thesis
      using Cons.IH by simp
  qed
qed

lemma distinct_ids_eq:
  assumes "distinct (map ci_id cs)" "x \<in> set cs" "y \<in> set cs" "ci_id x = ci_id y"
  shows "x = y"
  using assms by (meson distinct_map inj_onD)

lemma find_by_id_member:
  assumes "c \<in> set cs"
  shows "find (\<lambda>x. ci_id x = ci_id c) cs \<noteq> None"
  using assms by (auto simp: find_None_iff)


lemma merge_step:
  assumes dist: "distinct (map ci_id (cartItems d))"
    and g: "g \<in> set (cartItems d)" "ci_userId g \<noteq> Some u"
  shows "\<exists>d'. merge_guest_items u d (g # rest) = merge_guest_items u d' rest
          \<and> distinct (map ci_id (cartItems d'))
          \<and> (\<forall>x\<in>set (cartItems d). ci_id x \<noteq> ci_id g \<and> ci_userId x \<noteq> Some u \<longrightarrow> x \<in> set (cartItems d'))
          \<and> (\<forall>pid vid.
                sum_list (map (\<lambda>c. if ci_userId c = Some u \<and> ci_productId c = pid \<and> ci_variantId c = vid
                                    then ci_quantity c else 0) (cartItems d'))
                = sum_list (map (\<lambda>c. if ci_userId c = Some u \<and> ci_productId c = pid \<and> ci_variantId c = vid
                                      then ci_quantity c else 0) (cartItems d))
                  + (if ci_productId g = pid \<and> ci_variantId g = vid then ci_quantity g else 0))
          \<and> (\<forall>c\<in>set (cartItems d'). ci_sessionId c \<noteq> None \<longrightarrow>
                (\<exists>c0\<in>set (cartItems d). c0 \<noteq> g \<and> ci_sessionId c0 = ci_sessionId c
                     \<and> (c0 = c \<or> ci_userId c0 = Some u)))"
proof (cases "find (\<lambda>c. ci_userId c = Some u \<and> ci_productId c = ci_productId g
                        \<and> ci_variantId c = ci_variantId g) (cartItems d)")
  case None
  let ?f = "\<lambda>c. c\<lparr>ci_userId := Some u, ci_sessionId := None\<rparr>"
  let ?cs1 = "map (\<lambda>x. if ci_id x = ci_id g then ?f x else x) (cartItems d)"
  let ?d1 = "d\<lparr>cartItems := ?cs1\<rparr>"
  have upd: "cartItem_update (ci_id g) ?f d = Inr ?d1"
    using find_by_id_member[OF g(1)] by (auto simp: cartItem_update_def)
  have step: "merge_guest_items u d (g # rest) = merge_guest_items u ?d1 rest"
    using None upd by simp
  have ids: "map ci_id ?cs1 = map ci_id (cartItems d)"
    by (induction "cartItems d") auto
  have d1: "distinct (map ci_id (cartItems ?d1))"
    using dist by (simp add: ids del: map_map)
  have keep: "\<forall>x\<in>set (cartItems d). ci_id x \<noteq> ci_id g \<and> ci_userId x \<noteq> Some u \<longrightarrow> x \<in> set (cartItems ?d1)"
    by (auto simp: image_iff)
  have sums: "sum_list (map (\<lambda>c. if ci_userId c = Some u \<and> ci_productId c = pid \<and> ci_variantId c = vid
                                    then ci_quantity c else 0) (cartItems ?d1))
                = sum_list (map (\<lambda>c. if ci_userId c = Some u \<and> ci_productId c = pid \<and> ci_variantId c = vid
                                      then ci_quantity c else 0) (cartItems d))
                  + (if ci_productId g = pid \<and> ci_variantId g = vid then ci_quantity g else 0)" for pid vid
    using sum_update_by_id[OF dist g(1), of
        "\<lambda>c. if ci_userId c = Some u \<and> ci_productId c = pid \<and> ci_variantId c = vid then ci_quantity c else 0" ?f]
      g(2)
    by simp
  have sess: "\<forall>c\<in>set (cartItems ?d1). ci_sessionId c \<noteq> None \<longrightarrow>
                (\<exists>c0\<in>set (cartItems d). c0 \<noteq> g \<and> ci_sessionId c0 = ci_sessionId c
                     \<and> (c0 = c \<or> ci_userId c0 = Some u))"
    by (auto split: if_splits)
  show ?thesis
    using step d1 keep sums sess by blast
next
  case (Some e)
  then have e: "e \<in> set (cartItems d)" "ci_userId e = Some u"
      "ci_productId e = ci_productId g" "ci_variantId e = ci_variantId g"
    by (auto dest: find_Some_holds)
  have neq: "ci_id e \<noteq> ci_id g"
    using distinct_ids_eq[OF dist e(1) g(1)] e(2) g(2) by auto
  let ?f = "\<lambda>c. c\<lparr>ci_quantity := ci_quantity e + ci_quantity g\<rparr>"
  let ?cs1 = "map (\<lambda>x. if ci_id x = ci_id e then ?f x else x) (cartItems d)"
  let ?d1 = "d\<lparr>cartItems := ?cs1\<rparr>"
  let ?cs2 = "filter (\<lambda>x. ci_id x \<noteq> ci_id g) ?cs1"
  let ?d2 = "?d1\<lparr>cartItems := ?cs2\<rparr>"
  have upd: "cartItem_update (ci_id e) ?f d = Inr ?d1"
    using find_by_id_member[OF e(1)] by (auto simp: cartItem_update_def)
  have g1: "g \<in> set ?cs1"
    using g(1) neq by (auto simp: image_iff)
  have del: "cartItem_delete (ci_id g) ?d1 = Inr ?d2"
    using find_by_id_member[OF g1] by (auto simp: cartItem_delete_def)
  have step: "merge_guest_items u d (g # rest) = merge_guest_items u ?d2 rest"
    using Some upd del by simp
  have ids: "map ci_id ?cs1 = map ci_id (cartItems d)"
    by (induction "cartItems d") auto
  have dist1: "distinct (map ci_id ?cs1)"
    using dist by (simp add: ids del: map_map)
  have d2: "distinct (map ci_id (cartItems ?d2))"
    using dist1 by (simp add: distinct_map_filter del: map_map)
  have keep: "\<forall>x\<in>set (cartItems d). ci_id x \<noteq> ci_id g \<and> ci_userId x \<noteq> Some u \<longrightarrow> x \<in> set (cartItems ?d2)"
  proof (intro ballI impI)
    fix x assume x: "x \<in> set (cartItems d)" "ci_id x \<noteq> ci_id g \<and> ci_userId x \<noteq> Some u"
    then have "ci_id x \<noteq> ci_id e"
      using distinct_ids_eq[OF dist x(1) e(1)] e(2) by auto
    then show "x \<in> set (cartItems ?d2)"
      using x by (auto simp: image_iff)
  qed
  have sums: "sum_list (map (\<lambda>c. if ci_userId c = Some u \<and> ci_productId c = pid \<and> ci_variantId c = vid
                                    then ci_quantity c else 0) (cartItems ?d2))
                = sum_list (map (\<lambda>c. if ci_userId c = Some u \<and> ci_productId c = pid \<and> ci_variantId c = vid
                                      then ci_quantity c else 0) (cartItems d))
                  + (if ci_productId g = pid \<and> ci_variantId g = vid then ci_quantity g else 0)" for pid vid
  proof -
    let ?h = "\<lambda>c. if ci_userId c = Some u \<and> ci_productId c = pid \<and> ci_variantId c = vid then ci_quantity c else 0"
    have "sum_list (map ?h ?cs2) = sum_list (map ?h ?cs1) - ?h g"
      using sum_delete_by_id[OF dist1 g1, of ?h] by simp
    also have "sum_list (map ?h ?cs1) = sum_list (map ?h (cartItems d)) - ?h e + ?h (?f e)"
      using sum_update_by_id[OF dist e(1), of ?h ?f] by simp
    finally show ?thesis
      using e g(2) by simp
  qed
  have sess: "\<forall>c\<in>set (cartItems ?d2). ci_sessionId c \<noteq> None \<longrightarrow>
                (\<exists>c0\<in>set (cartItems d). c0 \<noteq> g \<and> ci_sessionId c0 = ci_sessionId c
                     \<and> (c0 = c \<or> ci_userId c0 = Some u))"
  proof (intro ballI impI)
    fix c assume c: "c \<in> set (cartItems ?d2)" "ci_sessionId c \<noteq> None"
    then obtain x where x: "x \<in> set (cartItems d)" "c = (if ci_id x = ci_id e then ?f x else x)"
        "ci_id c \<noteq> ci_id g"
      by auto
    show "\<exists>c0\<in>set (cartItems d). c0 \<noteq> g \<and> ci_sessionId c0 = ci_sessionId c
                     \<and> (c0 = c \<or> ci_userId c0 = Some u)"
    proof (cases "ci_id x = ci_id e")
      case True
      then have "x = e" using distinct_ids_eq[OF dist x(1) e(1)] by simp
      then show ?thesis
        using x e g(2) True by (intro bexI[of _ e]) auto
    next
      case False
      then show ?thesis
        using x by (intro bexI[of _ x]) auto
    qed
  qed
  show ?thesis
    using step d2 keep sums sess by blast
qed


lemma merge_guest_items_ok:
  assumes "distinct (map ci_id (cartItems d))" and "distinct (map ci_id gs)"
    and "set gs \<subseteq> set (cartItems d)" and "\<forall>g\<in>set gs. ci_userId g \<noteq> Some u"
  shows "snd (merge_guest_items u d gs) = None
       \<and> (\<forall>pid vid.
            sum_list (map (\<lambda>c. if ci_userId c = Some u \<and> ci_productId c = pid \<and> ci_variantId c = vid
                                then ci_quantity c else 0) (cartItems (fst (merge_guest_items u d gs))))
            = sum_list (map (\<lambda>c. if ci_userId c = Some u \<and> ci_productId c = pid \<and> ci_variantId c = vid
                                  then ci_quantity c else 0) (cartItems d))
              + sum_list (map ci_quantity (filter (\<lambda>g. ci_productId g = pid \<and> ci_variantId g = vid) gs)))
       \<and> (\<forall>c\<in>set (cartItems (fst (merge_guest_items u d gs))). ci_sessionId c \<noteq> None \<longrightarrow>
            (\<exists>c0\<in>set (cartItems d). c0 \<notin> set gs \<and> ci_sessionId c0 = ci_sessionId c))"
  using assms
proof (induction gs arbitrary: d)
  case Nil
  then show ?case by auto
next
  case (Cons g rest)
  from Cons.prems have g: "g \<in> set (cartItems d)" "ci_userId g \<noteq> Some u"
    by auto
  from merge_step[OF Cons.prems(1) g, of rest] obtain d' where
    step: "merge_guest_items u d (g # rest) = merge_guest_items u d' rest"
    and dist': "distinct (map ci_id (cartItems d'))"
    and keep: "\<forall>x\<in>set (cartItems d). ci_id x \<noteq> ci_id g \<and> ci_userId x \<noteq> Some u \<longrightarrow> x \<in> set (cartItems d')"
    and sums: "\<And>pid vid.
                sum_list (map (\<lambda>c. if ci_userId c = Some u \<and> ci_productId c = pid \<and> ci_variantId c = vid
                                    then ci_quantity c else 0) (cartItems d'))
                = sum_list (map (\<lambda>c. if ci_userId c = Some u \<and> ci_productId c = pid \<and> ci_variantId c = vid
                                      then ci_quantity c else 0) (cartItems d))
                  + (if ci_productId g = pid \<and> ci_variantId g = vid then ci_quantity g else 0)"
    and sess: "\<forall>c\<in>set (cartItems d'). ci_sessionId c \<noteq> None \<longrightarrow>
                (\<exists>c0\<in>set (cartItems d). c0 \<noteq> g \<and> ci_sessionId c0 = ci_sessionId c
                     \<and> (c0 = c \<or> ci_userId c0 = Some u))"
    by blast
  have rest_dist: "distinct (map ci_id rest)"
    using Cons.prems(2) by simp
  have rest_user: "\<forall>x\<in>set rest. ci_userId x \<noteq> Some u"
    using Cons.prems(4) by simp
  have rest_sub: "set rest \<subseteq> set (cartItems d')"
  proof
    fix x assume x: "x \<in> set rest"
    then have "ci_id x \<noteq> ci_id g"
      using Cons.prems(2) by (auto simp: image_iff)
    moreover have "x \<in> set (cartItems d)" "ci_userId x \<noteq> Some u"
      using x Cons.prems(3,4) by auto
    ultimately show "x \<in> set (cartItems d')"
      using keep by blast
  qed
  note ih = Cons.IH[OF dist' rest_dist rest_sub rest_user]
  have c1: "snd (merge_guest_items u d (g # rest)) = None"
    using ih by (simp only: step)
  have c2: "sum_list (map (\<lambda>c. if ci_userId c = Some u \<and> ci_productId c = pid \<and> ci_variantId c = vid
                                then ci_quantity c else 0) (cartItems (fst (merge_guest_items u d (g # rest)))))
            = sum_list (map (\<lambda>c. if ci_userId c = Some u \<and> ci_productId c = pid \<and> ci_variantId c = vid
                                  then ci_quantity c else 0) (cartItems d))
              + sum_list (map ci_quantity (filter (\<lambda>g. ci_productId g = pid \<and> ci_variantId g = vid) (g # rest)))"
    for pid vid
    using conjunct1[OF conjunct2[OF ih], rule_format, of pid vid] sums[of pid vid]
    by (simp only: step) simp
  have c3: "\<forall>c\<in>set (cartItems (fst (merge_guest_items u d (g # rest)))). ci_sessionId c \<noteq> None \<longrightarrow>
            (\<exists>c0\<in>set (cartItems d). c0 \<notin> set (g # rest) \<and> ci_sessionId c0 = ci_sessionId c)"
  proof (intro ballI impI)
    fix c assume c: "c \<in> set (cartItems (fst (merge_guest_items u d (g # rest))))" "ci_sessionId c \<noteq> None"
    then obtain c1 where c1: "c1 \<in> set (cartItems d')" "c1 \<notin> set rest" "ci_sessionId c1 = ci_sessionId c"
      using ih by (simp only: step) blast
    then obtain c0 where c0: "c0 \<in> set (cartItems d)" "c0 \<noteq> g" "ci_sessionId c0 = ci_sessionId c1"
        "c0 = c1 \<or> ci_userId c0 = Some u"
      using sess c(2) by metis
    have "c0 \<notin> set rest"
      using c0(4) c1(2) rest_user by auto
    then show "\<exists>c0\<in>set (cartItems d). c0 \<notin> set (g # rest) \<and> ci_sessionId c0 = ci_sessionId c"
      using c0 c1(3) by auto
  qed
  show ?case
    using c1 c2 c3 by blast
qed

text \<open>
  C10. Let the request be authenticated and name a guest session, in a cart table whose
  rows have distinct ids and in which no row of the guest session is already the user's
  (a row belongs to a user or to a session). Then the merge succeeds; for every product
  and variant, the quantity in the user's cart afterwards is the sum of the quantities
  that the user's cart and the guest's cart held before; and no row is left under the
  guest session id.
\<close>

theorem cart_merge_preserves_quantities:
  assumes uid: "js_truthy userId = Some uid" and sid: "js_truthy sessionId = Some sid"
    and ids: "distinct (map ci_id (cartItems d))"
    and excl: "\<forall>c\<in>set (cartItems d). ci_sessionId c = Some sid \<longrightarrow> ci_userId c \<noteq> Some uid"
    and res: "d' = fst (cart_merge d userId sessionId)"
  shows "snd (cart_merge d userId sessionId) = CartMerged
       \<and> user_cart_quantity d' uid pid vid
           = user_cart_quantity d uid pid vid + guest_cart_quantity d sid pid vid
       \<and> filter (\<lambda>c. ci_sessionId c = Some sid) (cartItems d') = []"
proof -
  let ?gs = "filter (\<lambda>c. ci_sessionId c = Some sid) (cartItems d)"
  have pre: "distinct (map ci_id ?gs)" "set ?gs \<subseteq> set (cartItems d)" "\<forall>g\<in>set ?gs. ci_userId g \<noteq> Some uid"
    using ids by (rule distinct_map_filter) (use excl in simp_all)
  note ok = merge_guest_items_ok[OF ids pre]
  have s_none: "snd (merge_guest_items uid d ?gs) = None"
    by (rule conjunct1[OF ok])
  obtain dm where m: "merge_guest_items uid d ?gs = (dm, None)"
    using s_none by (cases "merge_guest_items uid d ?gs") simp
  have fm: "fst (merge_guest_items uid d ?gs) = dm"
    by (simp add: m)
  have r: "cart_merge d userId sessionId = (dm, CartMerged)"
    using uid sid m by (simp add: cart_merge_def)
  have d': "d' = dm"
    by (simp add: res r)
  have g_eq: "sum_list (map ci_quantity (filter (\<lambda>g. ci_productId g = pid \<and> ci_variantId g = vid) ?gs))
           = guest_cart_quantity d sid pid vid"
    by (simp add: guest_cart_quantity_def)
  have u_eq: "user_cart_quantity dd uid pid vid
           = sum_list (map (\<lambda>c. if ci_userId c = Some uid \<and> ci_productId c = pid \<and> ci_variantId c = vid
                                then ci_quantity c else 0) (cartItems dd))" for dd
    by (simp add: user_cart_quantity_def sum_list_map_filter')
  have q: "user_cart_quantity dm uid pid vid
           = user_cart_quantity d uid pid vid + guest_cart_quantity d sid pid vid"
    unfolding u_eq g_eq[symmetric] fm[symmetric]
    by (rule conjunct1[OF conjunct2[OF ok], rule_format])
  have inv: "\<forall>c\<in>set (cartItems dm). ci_sessionId c \<noteq> None \<longrightarrow>
              (\<exists>c0\<in>set (cartItems d). c0 \<notin> set ?gs \<and> ci_sessionId c0 = ci_sessionId c)"
    unfolding fm[symmetric] by (rule conjunct2[OF conjunct2[OF ok]])
  have none: "filter (\<lambda>c. ci_sessionId c = Some sid) (cartItems dm) = []"
  proof -
    have "ci_sessionId c \<noteq> Some sid" if cm: "c \<in> set (cartItems dm)" for c
    proof
      assume s: "ci_sessionId c = Some sid"
      then have "ci_sessionId c \<noteq> None" by simp
      with inv cm obtain c0 where c0: "c0 \<in> set (cartItems d)" "c0 \<notin> set ?gs" "ci_sessionId c0 = ci_sessionId c"
        by blast
      then show False using s by simp
    qed
    then show ?thesis
      by (simp add: filter_empty_conv)
  qed
  show ?thesis
    unfolding d' using r q none by simp
qed

theorem cart_merge_witness:
  "snd (cart_merge ex_db_guest (Some ''u1'') (Some ''s1'')) = CartMerged
   \<and> user_cart_quantity ex_db_guest ''u1'' ''pRing'' None = 2
   \<and> guest_cart_quantity ex_db_guest ''s1'' ''pRing'' None = 3
   \<and> user_cart_quantity (fst (cart_merge ex_db_guest (Some ''u1'') (Some ''s1''))) ''u1'' ''pRing'' None = 5
   \<and> filter (\<lambda>c. ci_sessionId c = Some ''s1'')
        (cartItems (fst (cart_merge ex_db_guest (Some ''u1'') (Some ''s1'')))) = []"
proof -
  have t: "js_truthy (Some ''u1'') = Some ''u1''" "js_truthy (Some ''s1'') = Some ''s1''"
    by (simp_all add: js_truthy_def)
  have ids: "distinct (map ci_id (cartItems ex_db_guest))"
    by code_simp
  have excl: "\<forall>c\<in>set (cartItems ex_db_guest). ci_sessionId c = Some ''s1'' \<longrightarrow> ci_userId c \<noteq> Some ''u1''"
    by code_simp
  have q: "user_cart_quantity ex_db_guest ''u1'' ''pRing'' None = 2"
      "guest_cart_quantity ex_db_guest ''s1'' ''pRing'' None = 3"
    by code_simp+
  show ?thesis
    using cart_merge_preserves_quantities[OF t ids excl refl, of "''pRing''" None] q
    by simp
qed

end
